theory Spec2Isabelle
  imports Complex_Main "HOL-Library.Word"
begin

unbundle bit_operations_syntax

section \<open>The mini Wave\_Gen sketch (v01, Arduino nano)\<close>

text \<open>
  A shallow embedding of \<^verbatim>\<open>mini_Wave_Gen-v01.ino\<close>: the sketch's global variables are a
  record, every function of the sketch is a function on that record, and one pass through
  \<^verbatim>\<open>loop()\<close> is the function \<open>loop\<close>.

  Conventions of the embedding.
  \<^item> \<^verbatim>\<open>uint8_t\<close>, \<^verbatim>\<open>uint16_t\<close>, \<^verbatim>\<open>uint32_t\<close> are \<open>8 word\<close>, \<open>16 word\<close>, \<open>32 word\<close>;
    \<^verbatim>\<open>int8_t\<close> and \<^verbatim>\<open>int32_t\<close> are words read with \<open>sint\<close>. On the AVR target \<^verbatim>\<open>int\<close>
    has 16 bits, so arithmetic on \<^verbatim>\<open>uint16_t\<close> stays unsigned and wraps at \<open>2 ^ 16\<close>.
  \<^item> A \<^verbatim>\<open>float\<close> (and a \<^verbatim>\<open>double\<close>, which has 32 bits on the AVR target too) is the
    real number it denotes. Every arithmetic operation and every decimal literal is
    rounded to binary32 (\<open>fl32\<close>: to the nearest value with a 24-bit significand, ties to
    even, with the subnormal values below \<open>2 ^ - 126\<close>). A result beyond the range of
    binary32 stays a real number in the model where the sketch has an infinity; its
    conversion to an integer type is out of range either way. The result of the library
    routine \<^verbatim>\<open>sin\<close> is a parameter of the model.
  \<^item> A conversion from \<^verbatim>\<open>float\<close> to an integer type truncates towards zero. Where the
    truncated value does not fit the integer type the C language gives the conversion no
    meaning; the target's conversion routine still returns some value and the sketch goes
    on. That value is a parameter of the model (the record \<open>platform\<close>), so that every
    theorem holds whatever the routine returns.
  \<^item> What the model cannot follow is a fault: an integer division by zero, and an access
    to the array \<^verbatim>\<open>wave\<close> beyond its 128 cells.
  \<^item> The display, the serial port and the LED are not modelled. The codes written to
    the DAC are collected in the list \<open>dac_out\<close>.
  \<^item> Names are those of the sketch, but for three: the global counter \<^verbatim>\<open>i\<close> is the field
    \<open>i_count\<close>, the parameter \<^verbatim>\<open>wave\<close> of \<^verbatim>\<open>wave_calc\<close> (which hides the global array) is
    \<open>wv\<close>, and the local \<^verbatim>\<open>value\<close> of \<^verbatim>\<open>read_Encoder\<close> is \<open>step\<close>.
\<close>

subsection \<open>Machine types and conversions\<close>

type_synonym u8 = "8 word"
type_synonym u16 = "16 word"
type_synonym u32 = "32 word"
type_synonym cfloat = real

text \<open>The integer nearest to \<open>y\<close>, the even one of the two when \<open>y\<close> lies half-way.\<close>

definition round_even :: "real \<Rightarrow> int" where
  "round_even y =
     (if y - of_int \<lfloor>y\<rfloor> < 1 / 2 then \<lfloor>y\<rfloor>
      else if 1 / 2 < y - of_int \<lfloor>y\<rfloor> then \<lfloor>y\<rfloor> + 1
      else if even \<lfloor>y\<rfloor> then \<lfloor>y\<rfloor>
      else \<lfloor>y\<rfloor> + 1)"

text \<open>
  Rounding to binary32. With \<open>2 ^ e \<le> \<bar>x\<bar> < 2 ^ (e + 1)\<close> the binary32 values around \<open>x\<close>
  are the multiples of \<open>2 ^ (e - 23)\<close>; below \<open>2 ^ - 126\<close> they are the multiples of
  \<open>2 ^ - 149\<close>.
\<close>

definition fl32 :: "real \<Rightarrow> cfloat" where
  "fl32 x =
     (if x = 0 then 0
      else 2 powi (max \<lfloor>log 2 \<bar>x\<bar>\<rfloor> (- 126) - 23)
             * of_int (round_even (x / 2 powi (max \<lfloor>log 2 \<bar>x\<bar>\<rfloor> (- 126) - 23))))"

text \<open>The sum, the product and the quotient (for a divisor other than 0) of two floats.\<close>

definition add32 :: "cfloat \<Rightarrow> cfloat \<Rightarrow> cfloat" where
  "add32 x y = fl32 (x + y)"

definition mul32 :: "cfloat \<Rightarrow> cfloat \<Rightarrow> cfloat" where
  "mul32 x y = fl32 (x * y)"

definition div32 :: "cfloat \<Rightarrow> cfloat \<Rightarrow> cfloat" where
  "div32 x y = fl32 (x / y)"

text \<open>
  What the language leaves to the target: the result of a conversion from \<^verbatim>\<open>float\<close> whose
  value is out of the range of the integer type (or infinite), and the result of \<^verbatim>\<open>sin\<close>.
\<close>

record platform =
  sin32 :: "cfloat \<Rightarrow> cfloat"
  big_to_int32 :: "cfloat \<Rightarrow> u32"
  big_to_uint32 :: "cfloat \<Rightarrow> u32"
  inf_to_uint32 :: "u32"
  big_to_uint16 :: "cfloat \<Rightarrow> u16"
  big_to_uint8 :: "cfloat \<Rightarrow> u8"

text \<open>The integer part of a \<^verbatim>\<open>float\<close>: the fraction is discarded.\<close>

definition trunc :: "cfloat \<Rightarrow> int" where
  "trunc x = (if 0 \<le> x then \<lfloor>x\<rfloor> else \<lceil>x\<rceil>)"

text \<open>\<^verbatim>\<open>(int32_t)x\<close>, \<^verbatim>\<open>(uint32_t)x\<close>, \<^verbatim>\<open>(uint16_t)x\<close> and \<^verbatim>\<open>(uint8_t)x\<close> for a finite \<open>x\<close>.\<close>

definition to_int32 :: "platform \<Rightarrow> cfloat \<Rightarrow> u32" where
  "to_int32 pf x =
     (if - (2 ^ 31) \<le> trunc x \<and> trunc x < 2 ^ 31 then word_of_int (trunc x)
      else big_to_int32 pf x)"

definition to_uint32 :: "platform \<Rightarrow> cfloat \<Rightarrow> u32" where
  "to_uint32 pf x =
     (if 0 \<le> trunc x \<and> trunc x < 2 ^ 32 then word_of_int (trunc x)
      else big_to_uint32 pf x)"

definition to_uint16 :: "platform \<Rightarrow> cfloat \<Rightarrow> u16" where
  "to_uint16 pf x =
     (if 0 \<le> trunc x \<and> trunc x < 2 ^ 16 then word_of_int (trunc x)
      else big_to_uint16 pf x)"

definition to_uint8 :: "platform \<Rightarrow> cfloat \<Rightarrow> u8" where
  "to_uint8 pf x =
     (if 0 \<le> trunc x \<and> trunc x < 2 ^ 8 then word_of_int (trunc x)
      else big_to_uint8 pf x)"

text \<open>
  A platform to run the model on concrete inputs: its conversion routines wrap around, an
  infinite value converts to 0, and \<^verbatim>\<open>sin\<close> is rounded correctly.
\<close>

definition wrapping_platform :: platform where
  "wrapping_platform =
     \<lparr>sin32 = (\<lambda>x. fl32 (sin x)),
      big_to_int32 = (\<lambda>x. word_of_int (trunc x)),
      big_to_uint32 = (\<lambda>x. word_of_int (trunc x)),
      inf_to_uint32 = 0,
      big_to_uint16 = (\<lambda>x. word_of_int (trunc x)),
      big_to_uint8 = (\<lambda>x. word_of_int (trunc x))\<rparr>"


subsection \<open>Constants and global variables\<close>

definition Vref :: cfloat where
  "Vref = fl32 4.975"

definition time_compensation :: cfloat where
  "time_compensation = fl32 0.985"

text \<open>The macro \<^verbatim>\<open>PI\<close> of the Arduino core.\<close>

definition PI :: cfloat where
  "PI = fl32 3.1415926535897932384626433832795"

definition buffer_size :: nat where
  "buffer_size = 128"

definition initial_freq :: cfloat where
  "initial_freq = 50"

definition initial_amplitude :: cfloat where
  "initial_amplitude = Vref"

definition initial_offset :: cfloat where
  "initial_offset = div32 Vref 2"

definition initial_samples :: cfloat where
  "initial_samples = 32"

definition freq_max :: u16 where
  "freq_max = 568"

text \<open>The three modes held in \<^verbatim>\<open>SW1_state\<close>, and the four waveforms.\<close>

definition RUNNING :: u8 where
  "RUNNING = 0"

definition CONFIGURING :: u8 where
  "CONFIGURING = 1"

definition CALCULATING :: u8 where
  "CALCULATING = 2"

definition SINE :: "'a::len word" where
  "SINE = 0"

definition RAMP :: "'a::len word" where
  "RAMP = 1"

definition SQUARE :: "'a::len word" where
  "SQUARE = 2"

definition DC :: "'a::len word" where
  "DC = 3"

text \<open>The indices of \<^verbatim>\<open>wave_parameters[4]\<close>.\<close>

datatype parameter = FREQ | AMPLITUDE | OFFSET | SAMPLES

definition multipliers :: "cfloat list" where
  "multipliers = [1, 10, 1, 1, fl32 0.1, fl32 0.01, 1, fl32 0.1, fl32 0.01, 1]"

datatype fault = Division_By_Zero | Out_Of_Bounds

record state =
  SW1_state :: u8
  SW2_state :: u8
  encoder_A :: u8
  encoder_B :: u8
  encoder_A_prev :: u8
  enc_value :: u8
  i_count :: u16
  last_sample_time :: u32
  last_sample_time2 :: u32
  wave :: "nat \<Rightarrow> u16"
  wave_parameters :: "parameter \<Rightarrow> cfloat"
  sample_interval :: u32
  samples_uint :: u16
  float_pgm_read :: cfloat
  waveform :: u8
  dac_out :: "u16 list"

text \<open>
  What one pass through \<^verbatim>\<open>loop()\<close> reads from outside: the first and the second reading
  of \<^verbatim>\<open>micros()\<close>, and the levels of the two encoder pins.
\<close>

record inputs =
  micros_first :: u32
  micros_second :: u32
  clk_level :: bool
  data_level :: bool

subsection \<open>The waveform generator: \<^verbatim>\<open>wave_calc\<close>\<close>

text \<open>
  The body of the \<^verbatim>\<open>for\<close> loop up to the assignment of \<^verbatim>\<open>temp\<close>: the new value of
  \<^verbatim>\<open>temp\<close> at index \<open>i\<close>. For a \<^verbatim>\<open>wave\<close> that is none of the four kinds no branch
  assigns, and \<^verbatim>\<open>temp\<close> keeps its value.
\<close>

definition wave_temp ::
  "platform \<Rightarrow> u16 \<Rightarrow> cfloat \<Rightarrow> u16 \<Rightarrow> cfloat \<Rightarrow> cfloat \<Rightarrow> cfloat \<Rightarrow> u16 \<Rightarrow> u32 \<Rightarrow> u32" where
  "wave_temp pf points offset wv v_const const_sin_rad level_variation i temp =
     (if wv = SINE then
        to_int32 pf
          (add32 (mul32 (sin32 pf (mul32 (mul32 const_sin_rad (real (unat i))) 1)) v_const)
             (mul32 (div32 4096 Vref) offset))
      else if wv = RAMP then
        to_int32 pf
          (add32 (mul32 (mul32 (real (unat i)) level_variation) v_const)
             (mul32 (div32 4096 Vref) offset))
      else if wv = SQUARE then
        (if i < points div 2 then to_int32 pf (add32 v_const (mul32 (div32 4096 Vref) offset))
         else to_int32 pf (mul32 (div32 4096 Vref) offset))
      else if wv = DC then to_int32 pf (mul32 (div32 4096 Vref) offset)
      else temp)"

text \<open>
  The three-way \<^verbatim>\<open>if\<close> that ends the loop body: the value stored in \<^verbatim>\<open>array[i]\<close> for a
  given \<^verbatim>\<open>temp\<close> (an \<^verbatim>\<open>int32_t\<close>, compared as a signed number).
\<close>

definition wave_store :: "u32 \<Rightarrow> u16" where
  "wave_store temp =
     (if 4095 <s temp then 4095 else if temp <s 0 then 0 else ucast temp)"

text \<open>
  The loop \<^verbatim>\<open>for (i = 0; i < points; i++)\<close>, entered at \<open>i\<close> with the current \<^verbatim>\<open>temp\<close> and
  the current contents of the memory behind the pointer \<^verbatim>\<open>array\<close> (cell \<open>j\<close> is
  \<^verbatim>\<open>array[j]\<close>).
\<close>

function wave_loop ::
  "platform \<Rightarrow> u16 \<Rightarrow> cfloat \<Rightarrow> u16 \<Rightarrow> cfloat \<Rightarrow> cfloat \<Rightarrow> cfloat \<Rightarrow> u16 \<Rightarrow> u32 \<Rightarrow>
     (nat \<Rightarrow> u16) \<Rightarrow> (nat \<Rightarrow> u16)" where
  "wave_loop pf points offset wv v_const const_sin_rad level_variation i temp array =
     (if i < points then
        let temp' = wave_temp pf points offset wv v_const const_sin_rad level_variation i temp
        in wave_loop pf points offset wv v_const const_sin_rad level_variation (i + 1) temp'
             (array(unat i := wave_store temp'))
      else array)"
  by pat_completeness auto
termination
proof (relation "measure (\<lambda>(pf, points, offset, wv, vc, cs, lv, i, temp, array). unat points - unat i)")
  show "wf (measure (\<lambda>(pf, points, offset, wv, vc, cs, lv, i, temp, array).
              unat (points :: u16) - unat (i :: u16)))"
    by simp
next
  fix pf :: platform and points :: u16 and offset :: cfloat and wv :: u16
    and v_const const_sin_rad level_variation :: cfloat and i :: u16 and temp :: u32
    and array :: "nat \<Rightarrow> u16" and x :: u32
  assume less: "i < points"
  have "unat i < unat points"
    using less by (simp add: word_less_nat_alt)
  moreover have "unat points < 2 ^ 16"
    using unsigned_less [of points] by simp
  ultimately have "unat i + 1 < 2 ^ 16"
    by simp
  then have "unat (i + 1) = unat i + 1"
    by (simp add: unat_word_ariths)
  with \<open>unat i < unat points\<close>
  show "((pf, points, offset, wv, v_const, const_sin_rad, level_variation, i + 1, x,
          array(unat i := wave_store x)),
         (pf, points, offset, wv, v_const, const_sin_rad, level_variation, i, temp, array))
        \<in> measure (\<lambda>(pf, points, offset, wv, vc, cs, lv, i, temp, array). unat points - unat i)"
    by simp
qed

declare wave_loop.simps [simp del]

text \<open>
  The first \<^verbatim>\<open>if\<close> chain of \<^verbatim>\<open>wave_calc\<close>: the values of \<^verbatim>\<open>v_const\<close>,
  \<^verbatim>\<open>const_sin_rad\<close> and \<^verbatim>\<open>level_variation\<close> for the chosen waveform, each 0 where no
  branch assigns it. With \<^verbatim>\<open>points = 0\<close> the two quotients are infinite in the sketch; the
  loop body, their only reader, does not run then.
\<close>

definition wave_constants :: "u16 \<Rightarrow> u16 \<Rightarrow> cfloat \<Rightarrow> cfloat \<times> cfloat \<times> cfloat" where
  "wave_constants wv points amplitude =
     (if wv = SINE then
        (div32 (mul32 (div32 4096 Vref) amplitude) 2,
         div32 (mul32 2 PI) (real (unat points)), 0)
      else if wv = RAMP then
        (div32 (mul32 (div32 4096 Vref) amplitude) 1, 0, div32 1 (real (unat points)))
      else if wv = SQUARE then (div32 (mul32 (div32 4096 Vref) amplitude) 1, 0, 0)
      else if wv = DC then (div32 (mul32 (div32 4096 Vref) amplitude) 1, 0, 0)
      else (0, 0, 0))"

text \<open>\<^verbatim>\<open>wave_calc\<close>: the constants, then the loop from \<open>i = 0\<close> with \<^verbatim>\<open>temp = 0\<close>.\<close>

definition wave_calc ::
  "platform \<Rightarrow> (nat \<Rightarrow> u16) \<Rightarrow> u16 \<Rightarrow> cfloat \<Rightarrow> cfloat \<Rightarrow> u16 \<Rightarrow> (nat \<Rightarrow> u16)" where
  "wave_calc pf array points amplitude offset wv =
     (case wave_constants wv points amplitude of
        (v_const, const_sin_rad, level_variation) \<Rightarrow>
          wave_loop pf points offset wv v_const const_sin_rad level_variation 0 0 array)"

subsection \<open>The encoder: \<^verbatim>\<open>read_Encoder\<close>\<close>

text \<open>
  \<^verbatim>\<open>digitalRead\<close> gives 1 for a high level and 0 for a low one. The function returns the
  step (an \<^verbatim>\<open>int8_t\<close>: \<open>0 - 1\<close> is \<open>-1\<close>) and the state with the three encoder variables
  updated.
\<close>

definition read_Encoder :: "inputs \<Rightarrow> state \<Rightarrow> u8 \<times> state" where
  "read_Encoder inp st =
     (let a = of_bool (clk_level inp);
          b = of_bool (data_level inp);
          step = (if a = 0 \<and> encoder_A_prev st \<noteq> 0
                  then (if b \<noteq> 0 then 0 + 1 else 0 - 1)
                  else 0)
      in (step, st\<lparr>encoder_A := a, encoder_B := b, encoder_A_prev := a\<rparr>))"

subsection \<open>The sample interval: \<^verbatim>\<open>update_freq\<close>\<close>

text \<open>
  The four assignments to \<^verbatim>\<open>time_temp\<close>, each rounded, then the conversion. A division by
  zero gives an infinite \<^verbatim>\<open>time_temp\<close>, which stays infinite through the two
  multiplications; its conversion is the platform's \<open>inf_to_uint32\<close>.
\<close>

definition update_freq :: "platform \<Rightarrow> state \<Rightarrow> state" where
  "update_freq pf st =
     (let f = wave_parameters st FREQ;
          n = wave_parameters st SAMPLES
      in st\<lparr>sample_interval :=
              (if f = 0 \<or> n = 0 then inf_to_uint32 pf
               else to_uint32 pf
                      (mul32 (mul32 (div32 (div32 1 f) n) 1000000) time_compensation))\<rparr>)"

subsection \<open>The parts of \<^verbatim>\<open>loop()\<close>\<close>

text \<open>The index of the sample played in mode RUNNING: \<^verbatim>\<open>i & (samples_uint - 1)\<close>.\<close>

definition sample_index :: "u16 \<Rightarrow> u16 \<Rightarrow> u16" where
  "sample_index i n = i AND (n - 1)"

text \<open>Mode RUNNING: when the interval has passed, write the next sample to the DAC.\<close>

definition running :: "inputs \<Rightarrow> state \<Rightarrow> fault + state" where
  "running inp st =
     (if sample_interval st \<le> micros_first inp - last_sample_time st then
        (if buffer_size \<le> unat (sample_index (i_count st) (samples_uint st))
         then Inl Out_Of_Bounds
         else Inr (st\<lparr>last_sample_time := micros_second inp,
                      dac_out := dac_out st @
                        [wave st (unat (sample_index (i_count st) (samples_uint st)))],
                      i_count := i_count st + 1\<rparr>))
      else Inr st)"

text \<open>
  The saturation of the four parameters, run in mode CONFIGURING every 500 ms. The
  quotient \<^verbatim>\<open>freq_max / ((uint16_t)wave_parameters[SAMPLES] >> 4)\<close> is an integer division.
\<close>

definition saturate_parameters ::
  "platform \<Rightarrow> (parameter \<Rightarrow> cfloat) \<Rightarrow> fault + (parameter \<Rightarrow> cfloat)" where
  "saturate_parameters pf wp =
     (let d = drop_bit 4 (to_uint16 pf (wp SAMPLES)) in
      if d = 0 then Inl Division_By_Zero
      else
        let wp1 = (if freq_max div d < to_uint16 pf (wp FREQ)
                   then wp(FREQ := div32 (real (unat freq_max)) (real (unat d)))
                   else if wp FREQ < 0 then wp(FREQ := 1)
                   else wp);
            wp2 = (if Vref < wp1 AMPLITUDE then wp1(AMPLITUDE := Vref)
                   else if wp1 AMPLITUDE < 0 then wp1(AMPLITUDE := 0)
                   else wp1);
            wp3 = (if Vref < wp2 OFFSET then wp2(OFFSET := Vref)
                   else if wp2 OFFSET < 0 then wp2(OFFSET := 0)
                   else wp2);
            wp4 = (if wp3 SAMPLES < 16 then wp3(SAMPLES := 16) else wp3)
        in Inr wp4)"

text \<open>
  Case 9 of the \<^verbatim>\<open>switch\<close>: the new value of \<^verbatim>\<open>aux\<close> from its value
  \<^verbatim>\<open>(uint16_t)wave_parameters[SAMPLES]\<close> and the encoder step.
\<close>

definition samples_step :: "u16 \<Rightarrow> u8 \<Rightarrow> u16" where
  "samples_step aux enc =
     (let aux1 = (if sint enc = 1 then push_bit 1 aux
                  else if sint enc = - 1 then drop_bit 1 aux
                  else aux)
      in aux1 AND 0xF0)"

text \<open>An edit \<^verbatim>\<open>wave_parameters[p] += (float)float_pgm_read*enc_value\<close> after the table read.\<close>

definition add_step :: "parameter \<Rightarrow> nat \<Rightarrow> state \<Rightarrow> state" where
  "add_step p k st =
     st\<lparr>float_pgm_read := multipliers ! k,
        wave_parameters := (wave_parameters st)
          (p := add32 (wave_parameters st p)
                  (mul32 (multipliers ! k) (real_of_int (sint (enc_value st)))))\<rparr>"

text \<open>The \<^verbatim>\<open>switch (SW2_state)\<close>, entered with the step already in \<^verbatim>\<open>enc_value\<close>.\<close>

definition edit_field :: "platform \<Rightarrow> state \<Rightarrow> state" where
  "edit_field pf st =
     (if SW2_state st = 0 then
        st\<lparr>float_pgm_read := multipliers ! 0,
           waveform := ucast (((ucast (waveform st) :: u16)
                        + ucast (to_uint8 pf (multipliers ! 0)) * scast (enc_value st)) AND 0x03)\<rparr>
      else if SW2_state st = 1 then
        (let st1 = add_step FREQ 1 st
         in if waveform st1 = DC then st1\<lparr>SW2_state := 6\<rparr> else st1)
      else if SW2_state st = 2 then add_step FREQ 2 st
      else if SW2_state st = 3 then add_step AMPLITUDE 3 st
      else if SW2_state st = 4 then add_step AMPLITUDE 4 st
      else if SW2_state st = 5 then add_step AMPLITUDE 5 st
      else if SW2_state st = 6 then add_step OFFSET 6 st
      else if SW2_state st = 7 then add_step OFFSET 7 st
      else if SW2_state st = 8 then add_step OFFSET 8 st
      else if SW2_state st = 9 then
        st\<lparr>float_pgm_read := multipliers ! 9,
           wave_parameters := (wave_parameters st)
             (SAMPLES := real (unat (samples_step (to_uint16 pf (wave_parameters st SAMPLES))
                                       (enc_value st))))\<rparr>
      else st\<lparr>SW2_state := 0\<rparr>)"

text \<open>Mode CONFIGURING: the saturation when 500 ms have passed, then the encoder and the switch.\<close>

definition configuring :: "platform \<Rightarrow> inputs \<Rightarrow> state \<Rightarrow> fault + state" where
  "configuring pf inp st =
     (case (if 500000 \<le> micros_first inp - last_sample_time2 st then
              (case saturate_parameters pf (wave_parameters st) of
                 Inl e \<Rightarrow> Inl e
               | Inr wp \<Rightarrow> Inr (st\<lparr>wave_parameters := wp,
                                   last_sample_time2 := micros_second inp\<rparr>))
            else Inr st) of
        Inl e \<Rightarrow> Inl e
      | Inr st1 \<Rightarrow>
          (case read_Encoder inp st1 of
             (step, st2) \<Rightarrow> Inr (edit_field pf (st2\<lparr>enc_value := step\<rparr>))))"

text \<open>
  Mode CALCULATING. The four branches on \<^verbatim>\<open>waveform\<close> make the same call; the array
  \<^verbatim>\<open>wave\<close> has \<open>buffer_size\<close> cells, so a call that writes more of them is a fault.
\<close>

definition regenerate :: "platform \<Rightarrow> state \<Rightarrow> fault + state" where
  "regenerate pf st =
     (if buffer_size < unat (samples_uint st) then Inl Out_Of_Bounds
      else Inr (st\<lparr>wave := wave_calc pf (wave st) (samples_uint st)
                  (wave_parameters st AMPLITUDE) (wave_parameters st OFFSET)
                  (ucast (waveform st))\<rparr>))"

definition calculating :: "platform \<Rightarrow> state \<Rightarrow> fault + state" where
  "calculating pf st =
     (let st1 = st\<lparr>samples_uint := to_uint16 pf (wave_parameters st SAMPLES)\<rparr>
      in case (if waveform st1 = SINE then regenerate pf st1
               else if waveform st1 = RAMP then regenerate pf st1
               else if waveform st1 = SQUARE then regenerate pf st1
               else if waveform st1 = DC then regenerate pf st1
               else Inr st1) of
           Inl e \<Rightarrow> Inl e
         | Inr st2 \<Rightarrow> Inr ((update_freq pf st2)\<lparr>SW1_state := RUNNING, SW2_state := 0\<rparr>))"

text \<open>One pass through \<^verbatim>\<open>loop()\<close>.\<close>

definition loop :: "platform \<Rightarrow> inputs \<Rightarrow> state \<Rightarrow> fault + state" where
  "loop pf inp st =
     (if SW1_state st = RUNNING then running inp st
      else if SW1_state st = CONFIGURING then configuring pf inp st
      else if SW1_state st = CALCULATING then calculating pf st
      else Inr (st\<lparr>SW1_state := 0\<rparr>))"

text \<open>The two interrupt handlers.\<close>

definition SW1_interrupt :: "state \<Rightarrow> state" where
  "SW1_interrupt st = st\<lparr>SW1_state := SW1_state st + 1\<rparr>"

definition SW2_interrupt :: "state \<Rightarrow> state" where
  "SW2_interrupt st = st\<lparr>SW2_state := SW2_state st + 1\<rparr>"

text \<open>The four parameters as \<^verbatim>\<open>setup()\<close> loads them.\<close>

definition initial_parameters :: "parameter \<Rightarrow> cfloat" where
  "initial_parameters p =
     (case p of FREQ \<Rightarrow> initial_freq | AMPLITUDE \<Rightarrow> initial_amplitude
      | OFFSET \<Rightarrow> initial_offset | SAMPLES \<Rightarrow> initial_samples)"

text \<open>
  The globals as \<^verbatim>\<open>setup()\<close> leaves them, for the readings \<open>inp\<close>: the initial parameters,
  mode CALCULATING, everything else as initialised at its declaration.
\<close>

definition setup_state :: "inputs \<Rightarrow> state" where
  "setup_state inp =
     \<lparr>SW1_state = CALCULATING, SW2_state = 0,
      encoder_A = 0, encoder_B = 0, encoder_A_prev = of_bool (clk_level inp),
      enc_value = 0, i_count = 0,
      last_sample_time = micros_first inp, last_sample_time2 = micros_second inp,
      wave = (\<lambda>j. 0),
      wave_parameters = initial_parameters,
      sample_interval = 0, samples_uint = 0, float_pgm_read = 0,
      waveform = SINE, dac_out = []\<rparr>"

subsection \<open>The sketch at run time\<close>

text \<open>
  After \<^verbatim>\<open>setup()\<close> the Arduino core calls \<^verbatim>\<open>loop()\<close> again and again; a press of SW1 or
  SW2 runs the interrupt handler attached to it. A run is a list of events, a press
  falling between two passes (an interrupt in the middle of a pass is not modelled). The
  run stops at the first fault.
\<close>

datatype event = Pass inputs | Press_SW1 | Press_SW2

fun run :: "platform \<Rightarrow> event list \<Rightarrow> state \<Rightarrow> fault + state" where
  "run pf [] st = Inr st"
| "run pf (Pass inp # es) st =
     (case loop pf inp st of Inl e \<Rightarrow> Inl e | Inr st' \<Rightarrow> run pf es st')"
| "run pf (Press_SW1 # es) st = run pf es (SW1_interrupt st)"
| "run pf (Press_SW2 # es) st = run pf es (SW2_interrupt st)"

text \<open>The readings of a pass at time \<open>t\<close> (both readings of \<^verbatim>\<open>micros()\<close>) with the two pin levels.\<close>

definition pins :: "u32 \<Rightarrow> bool \<Rightarrow> bool \<Rightarrow> inputs" where
  "pins t clk dat =
     \<lparr>micros_first = t, micros_second = t, clk_level = clk, data_level = dat\<rparr>"

subsection \<open>The raw value of a sample\<close>

text \<open>
  The value of \<^verbatim>\<open>temp_float\<close> that pass \<open>j\<close> of the loop of \<^verbatim>\<open>wave_calc\<close> converts to
  \<^verbatim>\<open>temp\<close>, written out in the amplitude, the offset and the number of points for each of
  the four waveforms, with the roundings of the sketch.
\<close>

definition raw_sample :: "platform \<Rightarrow> u16 \<Rightarrow> nat \<Rightarrow> cfloat \<Rightarrow> cfloat \<Rightarrow> nat \<Rightarrow> cfloat" where
  "raw_sample pf wv points amplitude offset j =
     (if wv = SINE then
        add32
          (mul32 (sin32 pf (mul32 (mul32 (div32 (mul32 2 PI) (real points)) (real j)) 1))
             (div32 (mul32 (div32 4096 Vref) amplitude) 2))
          (mul32 (div32 4096 Vref) offset)
      else if wv = RAMP then
        add32
          (mul32 (mul32 (real j) (div32 1 (real points)))
             (div32 (mul32 (div32 4096 Vref) amplitude) 1))
          (mul32 (div32 4096 Vref) offset)
      else if wv = SQUARE then
        (if j < points div 2
         then add32 (div32 (mul32 (div32 4096 Vref) amplitude) 1) (mul32 (div32 4096 Vref) offset)
         else mul32 (div32 4096 Vref) offset)
      else mul32 (div32 4096 Vref) offset)"

subsection \<open>The invariant of the parameters\<close>

text \<open>
  The specification's invariant of WaveParameters: the sample count is one of 16, 32, 64,
  128; amplitude and offset lie between 0 and the reference voltage; the frequency is
  positive and at most \<open>freq_max / (sampleCount / 16)\<close>.
\<close>

definition valid_parameters :: "(parameter \<Rightarrow> cfloat) \<Rightarrow> bool" where
  "valid_parameters wp =
     (wp SAMPLES \<in> {16, 32, 64, 128}
      \<and> 0 \<le> wp AMPLITUDE \<and> wp AMPLITUDE \<le> Vref
      \<and> 0 \<le> wp OFFSET \<and> wp OFFSET \<le> Vref
      \<and> 0 < wp FREQ \<and> wp FREQ \<le> real (unat freq_max) / (wp SAMPLES / 16))"

section \<open>Properties\<close>

lemmas enum_defs =
  RUNNING_def CONFIGURING_def CALCULATING_def SINE_def RAMP_def SQUARE_def DC_def

subsection \<open>Rounding to binary32\<close>

lemma round_even_of_int: "round_even (of_int z) = z"
  by (simp add: round_even_def)

lemma round_even_near: "\<bar>of_int (round_even y) - y\<bar> \<le> 1 / 2"
  unfolding round_even_def by (auto simp: abs_le_iff; linarith)

lemma floor_log2_eq:
  assumes "2 powi e \<le> x" and "x < 2 powi (e + 1)"
  shows "\<lfloor>log 2 x\<rfloor> = e"
proof -
  have pos: "0 < x"
    using assms(1) zero_less_power_int [of "2 :: real" e] by linarith
  have "(2 :: real) powr real_of_int e = 2 powi e"
    by (simp add: powr_real_of_int')
  moreover have "(2 :: real) powr real_of_int (e + 1) = 2 powi (e + 1)"
    by (rule powr_real_of_int') simp_all
  moreover have "real_of_int (e + 1) = real_of_int e + 1"
    by simp
  ultimately have "2 powr real_of_int e \<le> x \<and> x < 2 powr (real_of_int e + 1)"
    using assms by metis
  then show ?thesis
    using floor_log_eq_powr_iff [of x 2 e] pos by simp
qed

lemma fl32_eval:
  assumes "2 powi e \<le> \<bar>x\<bar>" and "\<bar>x\<bar> < 2 powi (e + 1)" and "- 126 \<le> e"
  shows "fl32 x = 2 powi (e - 23) * of_int (round_even (x / 2 powi (e - 23)))"
proof -
  have "\<lfloor>log 2 \<bar>x\<bar>\<rfloor> = e"
    using assms(1,2) by (rule floor_log2_eq)
  moreover have "x \<noteq> 0"
  proof
    assume "x = 0"
    with assms(1) have "2 powi e \<le> (0 :: real)"
      by simp
    moreover have "(0 :: real) < 2 powi e"
      by simp
    ultimately show False
      by linarith
  qed
  ultimately show ?thesis
    using assms(3) by (simp add: fl32_def max_def)
qed

lemma ex_exponent:
  assumes "x \<noteq> 0"
  shows "2 powi \<lfloor>log 2 \<bar>x\<bar>\<rfloor> \<le> \<bar>x\<bar> \<and> \<bar>x\<bar> < 2 powi (\<lfloor>log 2 \<bar>x\<bar>\<rfloor> + 1)"
proof -
  have pos: "0 < \<bar>x\<bar>"
    using assms by simp
  have "2 powr real_of_int \<lfloor>log 2 \<bar>x\<bar>\<rfloor> \<le> \<bar>x\<bar> \<and> \<bar>x\<bar> < 2 powr (real_of_int \<lfloor>log 2 \<bar>x\<bar>\<rfloor> + 1)"
    using floor_log_eq_powr_iff [of "\<bar>x\<bar>" 2 "\<lfloor>log 2 \<bar>x\<bar>\<rfloor>"] pos by simp
  moreover have "(2 :: real) powr real_of_int \<lfloor>log 2 \<bar>x\<bar>\<rfloor> = 2 powi \<lfloor>log 2 \<bar>x\<bar>\<rfloor>"
    by (simp add: powr_real_of_int')
  moreover have "(2 :: real) powr (real_of_int \<lfloor>log 2 \<bar>x\<bar>\<rfloor> + 1) = 2 powi (\<lfloor>log 2 \<bar>x\<bar>\<rfloor> + 1)"
    using powr_real_of_int' [of "2 :: real" "\<lfloor>log 2 \<bar>x\<bar>\<rfloor> + 1"] by (simp add: add.commute)
  ultimately show ?thesis
    by simp
qed

lemma fl32_near:
  assumes "2 powi (- 126) \<le> \<bar>x\<bar>"
  shows "\<bar>fl32 x - x\<bar> \<le> \<bar>x\<bar> / 2 ^ 24"
proof -
  define e where "e = \<lfloor>log 2 \<bar>x\<bar>\<rfloor>"
  have pos126: "(0 :: real) < 2 powi (- 126)"
    by (rule zero_less_power_int) simp
  then have nz: "x \<noteq> 0"
    using assms by auto
  then have lo: "2 powi e \<le> \<bar>x\<bar>" and hi: "\<bar>x\<bar> < 2 powi (e + 1)"
    using ex_exponent [of x] by (simp_all add: e_def)
  have "- 126 \<le> e"
  proof (rule ccontr)
    assume "\<not> - 126 \<le> e"
    then have "e + 1 \<le> - 126"
      by simp
    then have "(2 :: real) powi (e + 1) \<le> 2 powi (- 126)"
      by (intro power_int_increasing) simp_all
    with hi assms show False
      by linarith
  qed
  define q :: real where "q = 2 powi (e - 23)"
  have qpos: "0 < q"
    by (simp add: q_def)
  have eq: "fl32 x = q * of_int (round_even (x / q))"
    using fl32_eval [OF lo hi \<open>- 126 \<le> e\<close>] by (simp add: q_def)
  have "fl32 x - x = q * (of_int (round_even (x / q)) - x / q)"
    using qpos by (simp add: eq field_simps)
  then have "\<bar>fl32 x - x\<bar> = q * \<bar>of_int (round_even (x / q)) - x / q\<bar>"
    using qpos by (simp add: abs_mult)
  also have "\<dots> \<le> q * (1 / 2)"
    using qpos round_even_near [of "x / q"] by (intro mult_left_mono) simp_all
  also have "q * (1 / 2) = 2 powi e / 2 ^ 24"
    by (simp add: q_def power_int_diff)
  also have "\<dots> \<le> \<bar>x\<bar> / 2 ^ 24"
    using lo by (simp add: divide_right_mono)
  finally show ?thesis .
qed

lemma fl32_representable:
  assumes "\<bar>m\<bar> < 2 ^ 24" and "- 149 \<le> p"
  shows "fl32 (of_int m * 2 powi p) = of_int m * 2 powi p"
proof (cases "m = 0")
  case True
  then show ?thesis
    by (simp add: fl32_def)
next
  case False
  define x :: real where "x = of_int m * 2 powi p"
  define e where "e = \<lfloor>log 2 \<bar>x\<bar>\<rfloor>"
  define E where "E = max e (- 126)"
  have nz: "x \<noteq> 0"
    using False by (simp add: x_def)
  have hi: "2 powi e \<le> \<bar>x\<bar>"
    using ex_exponent [OF nz] by (simp add: e_def)
  have "\<bar>x\<bar> = of_int \<bar>m\<bar> * 2 powi p"
    by (simp add: x_def abs_mult)
  also have "\<dots> < 2 ^ 24 * 2 powi p"
  proof -
    have "real_of_int \<bar>m\<bar> < 2 ^ 24"
      using assms(1) by (metis of_int_less_iff of_int_numeral of_int_power)
    then show ?thesis
      by (simp add: mult_strict_right_mono)
  qed
  also have "\<dots> = 2 powi (p + 24)"
    by (simp add: power_int_add)
  finally have "2 powi e < (2 :: real) powi (p + 24)"
    using hi by linarith
  then have "e < p + 24"
  proof (rule contrapos_pp)
    assume "\<not> e < p + 24"
    then have "(2 :: real) powi (p + 24) \<le> 2 powi e"
      by (intro power_int_increasing) simp_all
    then show "\<not> 2 powi e < (2 :: real) powi (p + 24)"
      by simp
  qed
  then have "E \<le> p + 23"
    using assms(2) by (simp add: E_def)
  then obtain k :: nat where k: "p - (E - 23) = int k"
    by (metis diff_ge_0_iff_ge diff_diff_eq2 nonneg_int_cases add.commute)
  have "x / 2 powi (E - 23) = of_int m * 2 powi (p - (E - 23))"
    by (simp add: x_def power_int_diff)
  also have "\<dots> = of_int (m * 2 ^ k)"
    by (simp add: k)
  finally have "round_even (x / 2 powi (E - 23)) = m * 2 ^ k"
    by (simp only: round_even_of_int)
  then have "fl32 x = 2 powi (E - 23) * of_int (m * 2 ^ k)"
    using nz by (simp add: fl32_def E_def e_def)
  also have "\<dots> = of_int m * (2 powi (E - 23) * 2 powi (int k))"
    by simp
  also have "2 powi (E - 23) * 2 powi (int k) = (2 :: real) powi p"
  proof -
    have "E - 23 + int k = p"
      using k by linarith
    then show ?thesis
      by (simp add: power_int_add [symmetric] del: power_int_of_nat)
  qed
  finally show ?thesis
    by (simp add: x_def)
qed

lemma fl32_of_int: "\<bar>m\<bar> < 2 ^ 24 \<Longrightarrow> fl32 (of_int m) = of_int m"
  using fl32_representable [of m 0] by simp

lemma fl32_numeral [simp]: "numeral n < (2 ^ 24 :: int) \<Longrightarrow> fl32 (numeral n) = numeral n"
  using fl32_of_int [of "numeral n"] by simp

lemma fl32_neg_numeral [simp]:
  "numeral n < (2 ^ 24 :: int) \<Longrightarrow> fl32 (- numeral n) = - numeral n"
  using fl32_of_int [of "- numeral n"] by simp

lemma fl32_0 [simp]: "fl32 0 = 0"
  by (simp add: fl32_def)

lemma fl32_1 [simp]: "fl32 1 = 1"
  using fl32_of_int [of 1] by simp

lemma fl32_neg_1 [simp]: "fl32 (- 1) = - 1"
  using fl32_of_int [of "- 1"] by simp

text \<open>The values of the rounded constants.\<close>

lemma Vref_value: "Vref = 10433331 / 2097152"
proof -
  have "fl32 4.975 = 2 powi (2 - 23) * of_int (round_even (4.975 / 2 powi (2 - 23)))"
    by (rule fl32_eval) simp_all
  also have "\<dots> = 10433331 / 2097152"
    by (simp add: round_even_def power_int_minus)
  finally show ?thesis
    by (simp add: Vref_def)
qed

lemma time_compensation_value: "time_compensation = 8262779 / 8388608"
proof -
  have "fl32 0.985 = 2 powi (- 1 - 23) * of_int (round_even (0.985 / 2 powi (- 1 - 23)))"
    by (rule fl32_eval) (simp_all add: power_int_minus)
  also have "\<dots> = 8262779 / 8388608"
    by (simp add: round_even_def power_int_minus)
  finally show ?thesis
    by (simp add: time_compensation_def)
qed

lemma initial_offset_value: "initial_offset = 10433331 / 4194304"
proof -
  have "fl32 (10433331 / 4194304)
      = 2 powi (1 - 23) * of_int (round_even (10433331 / 4194304 / 2 powi (1 - 23)))"
    by (rule fl32_eval) simp_all
  also have "\<dots> = 10433331 / 4194304"
    by (simp add: round_even_def power_int_minus)
  finally show ?thesis
    by (simp add: initial_offset_def div32_def Vref_value)
qed

lemma ratio_value: "div32 4096 Vref = 13489219 / 16384"
proof -
  have "fl32 (4096 / (10433331 / 2097152))
      = 2 powi (9 - 23) * of_int (round_even (4096 / (10433331 / 2097152) / 2 powi (9 - 23)))"
    by (rule fl32_eval) simp_all
  also have "\<dots> = 13489219 / 16384"
    by (simp add: round_even_def power_int_minus)
  finally show ?thesis
    by (simp add: div32_def Vref_value)
qed

subsection \<open>The loop of \<^verbatim>\<open>wave_calc\<close>\<close>

text \<open>
  The counter does not wrap inside the loop: below \<open>points\<close> it is below the largest
  \<^verbatim>\<open>uint16_t\<close>.
\<close>

lemma unat_succ_less: "(i :: u16) < points \<Longrightarrow> unat (i + 1) = Suc (unat i)"
proof -
  assume less: "i < points"
  have "unat i < unat points"
    using less by (simp add: word_less_nat_alt)
  moreover have "unat points < 2 ^ 16"
    using unsigned_less [of points] by simp
  ultimately have "unat i + 1 < 2 ^ 16"
    by simp
  then show "unat (i + 1) = Suc (unat i)"
    by (simp add: unat_word_ariths)
qed

lemma wave_loop_step:
  "i < points \<Longrightarrow>
     wave_loop pf points offset wv v_const const_sin_rad level_variation i temp array
     = wave_loop pf points offset wv v_const const_sin_rad level_variation (i + 1)
         (wave_temp pf points offset wv v_const const_sin_rad level_variation i temp)
         (array(unat i := wave_store
            (wave_temp pf points offset wv v_const const_sin_rad level_variation i temp)))"
  by (subst wave_loop.simps) (simp add: Let_def)

lemma wave_loop_done:
  "\<not> i < points \<Longrightarrow>
     wave_loop pf points offset wv v_const const_sin_rad level_variation i temp array = array"
  by (subst wave_loop.simps) simp

text \<open>
  The loop entered at \<open>i\<close> leaves the cells below \<open>i\<close> and from \<open>points\<close> on as they are, and
  gives every cell \<open>j\<close> in between the saturated \<^verbatim>\<open>temp\<close> of pass \<open>j\<close>.
\<close>

lemma wave_loop_outside:
  "j < unat i \<or> unat points \<le> j \<Longrightarrow>
     wave_loop pf points offset wv v_const const_sin_rad level_variation i temp array j = array j"
proof (induction pf points offset wv v_const const_sin_rad level_variation i temp array
    rule: wave_loop.induct)
  case (1 pf points offset wv v_const const_sin_rad level_variation i temp array)
  show ?case
  proof (cases "i < points")
    case True
    then have suc: "unat (i + 1) = Suc (unat i)"
      by (rule unat_succ_less)
    have lt: "unat i < unat points"
      using True by (simp add: word_less_nat_alt)
    have ne: "j \<noteq> unat i"
      using "1.prems" lt by auto
    have "j < unat (i + 1) \<or> unat points \<le> j"
      using "1.prems" suc by auto
    then have "wave_loop pf points offset wv v_const const_sin_rad level_variation (i + 1)
            (wave_temp pf points offset wv v_const const_sin_rad level_variation i temp)
            (array(unat i := wave_store
               (wave_temp pf points offset wv v_const const_sin_rad level_variation i temp))) j
          = (array(unat i := wave_store
               (wave_temp pf points offset wv v_const const_sin_rad level_variation i temp))) j"
      by (rule "1.IH" [OF True refl])
    also have "\<dots> = array j"
      using ne by simp
    finally show ?thesis
      by (simp only: wave_loop_step [OF True])
  next
    case False
    then show ?thesis
      by (simp add: wave_loop_done)
  qed
qed

lemma wave_temp_again:
  "wave_temp pf points offset wv v_const const_sin_rad level_variation i
     (wave_temp pf points offset wv v_const const_sin_rad level_variation k temp)
   = wave_temp pf points offset wv v_const const_sin_rad level_variation i temp"
  by (simp add: wave_temp_def)

lemma wave_loop_inside:
  "unat i \<le> j \<Longrightarrow> j < unat points \<Longrightarrow>
     wave_loop pf points offset wv v_const const_sin_rad level_variation i temp array j
     = wave_store (wave_temp pf points offset wv v_const const_sin_rad level_variation
         (of_nat j) temp)"
proof (induction pf points offset wv v_const const_sin_rad level_variation i temp array
    rule: wave_loop.induct)
  case (1 pf points offset wv v_const const_sin_rad level_variation i temp array)
  have lt: "unat i < unat points"
    using "1.prems" by simp
  then have less: "i < points"
    by (simp add: word_less_nat_alt)
  then have suc: "unat (i + 1) = Suc (unat i)"
    by (rule unat_succ_less)
  show ?case
  proof (cases "j = unat i")
    case True
    have "j < unat (i + 1) \<or> unat points \<le> j"
      by (simp add: suc True)
    then show ?thesis
      by (simp only: wave_loop_step [OF less] wave_loop_outside) (simp add: True)
  next
    case False
    then have "unat (i + 1) \<le> j"
      using "1.prems" suc by simp
    from "1.IH" [OF less refl this "1.prems"(2)]
    show ?thesis
      by (simp only: wave_loop_step [OF less] wave_temp_again)
  qed
qed






lemma index_of_nat:
  assumes "j < unat (points :: u16)"
  shows "unat (of_nat j :: u16) = j" and "((of_nat j :: u16) < points div 2) = (j < unat points div 2)"
proof -
  have "unat points < 2 ^ 16"
    using unsigned_less [of points] by simp
  then show eq: "unat (of_nat j :: u16) = j"
    using assms by (simp add: unat_of_nat)
  have "unat (points div 2) = unat points div 2"
    by (simp add: unat_div)
  then show "((of_nat j :: u16) < points div 2) = (j < unat points div 2)"
    by (simp add: word_less_nat_alt eq)
qed

lemma wave_calc_raw:
  assumes "j < unat points" and "wv \<in> {SINE, RAMP, SQUARE, DC}"
  shows "wave_calc pf array points amplitude offset wv j
    = wave_store (to_int32 pf (raw_sample pf wv (unat points) amplitude offset j))"
proof -
  note idx = index_of_nat [OF assms(1)]
  consider "wv = SINE" | "wv \<noteq> SINE" "wv = RAMP" | "wv \<noteq> SINE" "wv \<noteq> RAMP" "wv = SQUARE"
    | "wv \<noteq> SINE" "wv \<noteq> RAMP" "wv \<noteq> SQUARE" "wv = DC"
    using assms(2) by (auto simp add: enum_defs)
  then show ?thesis
  proof cases
    case 1
    then show ?thesis
      using assms(1)
      by (simp add: wave_calc_def wave_constants_def wave_loop_inside wave_temp_def
          raw_sample_def idx)
  next
    case 2
    then show ?thesis
      using assms(1)
      by (simp add: wave_calc_def wave_constants_def wave_loop_inside wave_temp_def
          raw_sample_def idx)
  next
    case 3
    then show ?thesis
      using assms(1)
      by (simp add: wave_calc_def wave_constants_def wave_loop_inside wave_temp_def
          raw_sample_def idx)
  next
    case 4
    then show ?thesis
      using assms(1)
      by (simp add: wave_calc_def wave_constants_def wave_loop_inside wave_temp_def
          raw_sample_def idx)
  qed
qed

subsection \<open>Saturation of the stored samples\<close>










subsection \<open>The cells that \<^verbatim>\<open>wave_calc\<close> leaves alone\<close>

text \<open>
  Claim C10. \<^verbatim>\<open>wave_calc\<close> writes the cells \<open>0 .. points - 1\<close> only: every cell at an index
  \<open>j \<ge> points\<close> (so every cell of \<open>[points, 128)\<close>) keeps the value it had before the call.
  After a second call with a smaller sample count, the cells from that count on still
  hold the samples of the first call.
\<close>

theorem wave_calc_frame:
  "(unat points \<le> j \<longrightarrow> wave_calc pf array points amplitude offset wv j = array j)
   \<and> (unat points' \<le> j \<longrightarrow>
        wave_calc pf (wave_calc pf array points amplitude offset wv)
          points' amplitude' offset' wv' j
        = wave_calc pf array points amplitude offset wv j)"
  by (simp add: wave_calc_def wave_loop_outside split: prod.split)

theorem wave_calc_frame_witness:
  "unat (16 :: u16) \<le> (20 :: nat)
   \<and> wave_calc wrapping_platform (\<lambda>j. 7) 16 1 10 DC 20 = 7"
  using wave_calc_frame [of 16 20 wrapping_platform "\<lambda>j. 7" 1 10 DC] by simp

subsection \<open>The encoder step\<close>

text \<open>
  Claim C8. The step returned by \<^verbatim>\<open>read_Encoder\<close> depends on the previous clock level, the
  clock level and the data level only: it is \<open>+1\<close> exactly when the clock falls (previous
  level high, level low) with the data line high, \<open>-1\<close> exactly when the clock falls with
  the data line low, and 0 exactly when the clock does not fall; the clock level read
  becomes the previous level.
\<close>

theorem read_Encoder_step:
  "(sint (fst (read_Encoder inp st)) = 1)
     = (encoder_A_prev st \<noteq> 0 \<and> \<not> clk_level inp \<and> data_level inp)
   \<and> (sint (fst (read_Encoder inp st)) = - 1)
     = (encoder_A_prev st \<noteq> 0 \<and> \<not> clk_level inp \<and> \<not> data_level inp)
   \<and> (sint (fst (read_Encoder inp st)) = 0)
     = (\<not> (encoder_A_prev st \<noteq> 0 \<and> \<not> clk_level inp))
   \<and> encoder_A_prev (snd (read_Encoder inp st)) = of_bool (clk_level inp)"
  by (simp add: read_Encoder_def Let_def)

subsection \<open>The index of the sample played\<close>

lemma sample_index_mask: "sample_index i (2 ^ k) = take_bit k i"
  by (simp add: sample_index_def take_bit_eq_mask mask_eq_exp_minus_1)

lemma sample_index_pow2: "unat (sample_index i (2 ^ k)) = unat i mod 2 ^ k"
proof -
  have "unat (sample_index i (2 ^ k)) = unat (take_bit k i)"
    by (simp only: sample_index_mask)
  also have "\<dots> = take_bit k (unat i)"
    by (rule unsigned_take_bit_eq)
  also have "\<dots> = unat i mod 2 ^ k"
    by (rule take_bit_eq_mod)
  finally show ?thesis .
qed

lemma sample_index_counts:
  "n \<in> {16, 32, 64, 128} \<Longrightarrow> unat (sample_index i n) = unat i mod unat n"
proof -
  assume "n \<in> {16, 32, 64, 128}"
  then consider "n = 16" | "n = 32" | "n = 64" | "n = 128"
    by auto
  then show ?thesis
  proof cases
    case 1
    then show ?thesis
      using sample_index_pow2 [of i 4] by simp
  next
    case 2
    then show ?thesis
      using sample_index_pow2 [of i 5] by simp
  next
    case 3
    then show ?thesis
      using sample_index_pow2 [of i 6] by simp
  next
    case 4
    then show ?thesis
      using sample_index_pow2 [of i 7] by simp
  qed
qed

text \<open>
  Claim C7. For a sample count \<open>n\<close> of 16, 32, 64 or 128 the index \<^verbatim>\<open>i & (n - 1)\<close> is
  \<open>i mod n\<close>, so the look-up reads \<open>buffer[i mod n]\<close>, for every value of the free-running
  counter \<open>i\<close>. With \<open>n = 16\<close>, index 17 reads cell 1 and the indices \<open>0 .. 31\<close> read the
  sixteen cells twice over.
\<close>

theorem sample_index_mod:
  "n \<in> {16, 32, 64, 128} \<Longrightarrow>
     unat (sample_index i n) = unat i mod unat n
     \<and> buffer (unat (sample_index i n)) = buffer (unat i mod unat n)
     \<and> sample_index 17 16 = 1
     \<and> map (\<lambda>k. buffer (unat (sample_index (of_nat k) 16))) [0..<32]
         = map buffer [0..<16] @ map buffer [0..<16]"
proof -
  assume "n \<in> {16, 32, 64, 128}"
  then have index: "unat (sample_index i n) = unat i mod unat n"
    by (rule sample_index_counts)
  have "unat (sample_index (of_nat k) 16) = k mod 16" if "k < 32" for k
  proof -
    have "unat (of_nat k :: u16) = k"
      using that by (simp add: unat_of_nat)
    then show ?thesis
      using sample_index_pow2 [of "of_nat k" 4] by simp
  qed
  then have "map (\<lambda>k. buffer (unat (sample_index (of_nat k) 16))) [0..<32]
      = map (\<lambda>k. buffer (k mod 16)) [0..<32]"
    by simp
  also have "\<dots> = map buffer (map (\<lambda>k. k mod 16) [0..<32])"
    by simp
  also have "map (\<lambda>k. k mod 16) [0..<32] = [0..<16] @ [0..<16 :: nat]"
    by code_simp
  finally have twice: "map (\<lambda>k. buffer (unat (sample_index (of_nat k) 16))) [0..<32]
      = map buffer [0..<16] @ map buffer [0..<16]"
    by simp
  have "sample_index 17 16 = 1"
    by (simp add: sample_index_def)
  with index twice show ?thesis
    by simp
qed

theorem sample_index_mod_witness:
  "(16 :: u16) \<in> {16, 32, 64, 128}
   \<and> unat (sample_index 17 16) = 1
   \<and> unat (sample_index 200 128) = 72"
  using sample_index_mod [of 16 17 id] sample_index_mod [of 128 200 id] by simp

text \<open>
  So in mode RUNNING, with one of the four sample counts, a pass that is due writes the
  sample at index \<open>i mod n\<close> to the DAC and advances the counter.
\<close>

lemma running_plays:
  assumes "samples_uint st \<in> {16, 32, 64, 128}"
    and "sample_interval st \<le> micros_first inp - last_sample_time st"
  shows "running inp st = Inr (st\<lparr>last_sample_time := micros_second inp,
    dac_out := dac_out st @ [wave st (unat (i_count st) mod unat (samples_uint st))],
    i_count := i_count st + 1\<rparr>)"
proof -
  have mask: "unat (sample_index (i_count st) (samples_uint st))
      = unat (i_count st) mod unat (samples_uint st)"
    using assms(1) by (rule sample_index_counts)
  have "unat (samples_uint st) \<le> 128" "0 < unat (samples_uint st)"
    using assms(1) by auto
  then have "unat (i_count st) mod unat (samples_uint st) < 128"
    using mod_less_divisor [of "unat (samples_uint st)" "unat (i_count st)"] by linarith
  then show ?thesis
    using assms(2) by (simp add: running_def mask buffer_size_def)
qed

subsection \<open>Conversions of values in range\<close>

lemma trunc_nonneg: "0 \<le> x \<Longrightarrow> trunc x = \<lfloor>x\<rfloor>"
  by (simp add: trunc_def)

lemma uint_word_of_int_u16: "0 \<le> k \<Longrightarrow> k < 2 ^ 16 \<Longrightarrow> uint (word_of_int k :: u16) = k"
  by (simp add: uint_word_of_int take_bit_int_eq_self)

lemma to_uint16_in_range:
  "0 \<le> x \<Longrightarrow> x < 65536 \<Longrightarrow>
     to_uint16 pf x = word_of_int \<lfloor>x\<rfloor> \<and> uint (to_uint16 pf x) = \<lfloor>x\<rfloor>"
proof -
  assume "0 \<le> x" "x < 65536"
  then have "0 \<le> \<lfloor>x\<rfloor>" "\<lfloor>x\<rfloor> < 2 ^ 16"
    by (simp_all add: floor_less_iff)
  moreover have "trunc x = \<lfloor>x\<rfloor>"
    using \<open>0 \<le> x\<close> by (rule trunc_nonneg)
  ultimately have conv: "to_uint16 pf x = word_of_int \<lfloor>x\<rfloor>"
    by (simp add: to_uint16_def)
  have "uint (word_of_int \<lfloor>x\<rfloor> :: u16) = \<lfloor>x\<rfloor>"
    using \<open>0 \<le> \<lfloor>x\<rfloor>\<close> \<open>\<lfloor>x\<rfloor> < 2 ^ 16\<close> by (rule uint_word_of_int_u16)
  with conv show ?thesis
    by (simp only: simp_thms)
qed

subsection \<open>The sample interval\<close>

text \<open>
  A rounding to binary32 changes a value of normal size by at most one part in \<open>2 ^ 24\<close>.
\<close>

lemma fl32_between:
  assumes "lo \<le> x" and "x \<le> hi" and "2 powi (- 126) \<le> lo"
  shows "lo * (16777215 / 16777216) \<le> fl32 x" and "fl32 x \<le> hi * (16777217 / 16777216)"
proof -
  have "(0 :: real) < 2 powi (- 126)"
    by simp
  then have pos: "0 < x"
    using assms(1,3) by linarith
  have "\<bar>fl32 x - x\<bar> \<le> \<bar>x\<bar> / 2 ^ 24"
    using assms(1,3) pos by (intro fl32_near) linarith
  then have "\<bar>fl32 x - x\<bar> \<le> x / 16777216"
    using pos by simp
  then have near: "x - x / 16777216 \<le> fl32 x" "fl32 x \<le> x + x / 16777216"
    by linarith+
  have "lo * (16777215 / 16777216) \<le> x * (16777215 / 16777216)"
    using assms(1) by simp
  then show "lo * (16777215 / 16777216) \<le> fl32 x"
    using near(1) by simp
  have "x * (16777217 / 16777216) \<le> hi * (16777217 / 16777216)"
    using assms(2) by simp
  then show "fl32 x \<le> hi * (16777217 / 16777216)"
    using near(2) by simp
qed

text \<open>
  The value of \<^verbatim>\<open>time_temp\<close> after its four roundings, for a frequency \<open>f\<close> up to \<open>2 ^ 24\<close>
  and a sample count \<open>n\<close>: it differs from \<open>985000 / (f * n)\<close> by at most \<open>1 / (2 * f * n)\<close>.
\<close>

lemma time_temp_bounds:
  assumes "0 < f" and "f \<le> 2 ^ 24" and "n \<in> {16, 32, 64, 128}"
  shows "(985000 - 1 / 2) / (f * n)
      \<le> mul32 (mul32 (div32 (div32 1 f) n) 1000000) time_compensation"
    and "mul32 (mul32 (div32 (div32 1 f) n) 1000000) time_compensation
      \<le> (985000 + 1 / 2) / (f * n)"
proof -
  define g where "g = 1 / (f * n)"
  have n: "0 < n" "n \<le> 128" "1 \<le> n"
    using assms(3) by auto
  have "f * n \<le> 2 ^ 24 * 128"
    using assms(1,2) n by (intro mult_mono) simp_all
  then have "1 / (2 ^ 24 * 128) \<le> g"
    unfolding g_def using assms(1) n by (intro divide_left_mono) simp_all
  then have g: "1 / 2147483648 \<le> g"
    by simp
  have tiny: "2 powi (- 126) \<le> c * g" if "1 / 2 \<le> c" for c
  proof -
    have "1 / 2 * (1 / 2147483648) \<le> c * g"
      using that g by (intro mult_mono) simp_all
    moreover have "(2 :: real) powi (- 126) \<le> 1 / 2 * (1 / 2147483648)"
      by (simp add: power_int_minus)
    ultimately show ?thesis
      by linarith
  qed
  let ?L = "16777215 / 16777216 :: real"
  let ?U = "16777217 / 16777216 :: real"
  define t1 where "t1 = div32 1 f"
  define t2 where "t2 = div32 t1 n"
  define t3 where "t3 = mul32 t2 1000000"
  define t4 where "t4 = mul32 t3 time_compensation"
  have x1: "n * g \<le> 1 / f" "1 / f \<le> n * g"
    using assms(1) n by (simp_all add: g_def)
  have "2 powi (- 126) \<le> n * g"
    by (rule tiny) (use n in simp)
  from fl32_between [OF x1 this]
  have b1: "?L * (g * n) \<le> t1" "t1 \<le> ?U * (g * n)"
    by (simp_all add: t1_def div32_def mult.commute)
  have x2: "?L * g \<le> t1 / n" "t1 / n \<le> ?U * g"
    using b1 n by (simp_all add: field_simps)
  from fl32_between [OF x2 tiny]
  have b2: "?L * g * ?L \<le> t2" "t2 \<le> ?U * g * ?U"
    by (simp_all add: t2_def div32_def)
  have x3: "?L * ?L * 1000000 * g \<le> t2 * 1000000" "t2 * 1000000 \<le> ?U * ?U * 1000000 * g"
    using b2 by simp_all
  from fl32_between [OF x3 tiny]
  have b3: "?L * ?L * 1000000 * g * ?L \<le> t3" "t3 \<le> ?U * ?U * 1000000 * g * ?U"
    by (simp_all add: t3_def mul32_def)
  have x4: "?L * ?L * ?L * 1000000 * (8262779 / 8388608) * g \<le> t3 * time_compensation"
    "t3 * time_compensation \<le> ?U * ?U * ?U * 1000000 * (8262779 / 8388608) * g"
    using b3 by (simp_all add: time_compensation_value)
  from fl32_between [OF x4 tiny]
  have b4: "?L * ?L * ?L * 1000000 * (8262779 / 8388608) * g * ?L \<le> t4"
    "t4 \<le> ?U * ?U * ?U * 1000000 * (8262779 / 8388608) * g * ?U"
    by (simp_all add: t4_def mul32_def)
  have "0 \<le> g"
    using g by simp
  have "(985000 - 1 / 2) * g \<le> ?L * ?L * ?L * 1000000 * (8262779 / 8388608) * g * ?L"
    using \<open>0 \<le> g\<close> by simp
  with b4(1) have "(985000 - 1 / 2) * g \<le> t4"
    by linarith
  then show "(985000 - 1 / 2) / (f * n)
      \<le> mul32 (mul32 (div32 (div32 1 f) n) 1000000) time_compensation"
    by (simp add: g_def t4_def t3_def t2_def t1_def)
  have "?U * ?U * ?U * 1000000 * (8262779 / 8388608) * g * ?U \<le> (985000 + 1 / 2) * g"
    using \<open>0 \<le> g\<close> by simp
  with b4(2) have "t4 \<le> (985000 + 1 / 2) * g"
    by linarith
  then show "mul32 (mul32 (div32 (div32 1 f) n) 1000000) time_compensation
      \<le> (985000 + 1 / 2) / (f * n)"
    by (simp add: g_def t4_def t3_def t2_def t1_def)
qed

text \<open>
  For a whole-number frequency \<open>m\<close> the quotient \<open>985000 / (m * N)\<close> is at least
  \<open>1 / (m * N)\<close> away from the integers around it, since 16 divides \<open>m * N\<close> and does not
  divide 985000: the four roundings do not change the integer part.
\<close>

lemma time_temp_whole:
  assumes "1 \<le> m" and "m \<le> 16777216" and "N \<in> {16, 32, 64, 128}"
  shows "\<lfloor>mul32 (mul32 (div32 (div32 1 (real m)) (real N)) 1000000) time_compensation\<rfloor>
      = int (985000 div (m * N))"
    and "0 \<le> mul32 (mul32 (div32 (div32 1 (real m)) (real N)) 1000000) time_compensation"
    and "mul32 (mul32 (div32 (div32 1 (real m)) (real N)) 1000000) time_compensation < 61563"
proof -
  define t where
    "t = mul32 (mul32 (div32 (div32 1 (real m)) (real N)) 1000000) time_compensation"
  define M where "M = m * N"
  define k where "k = 985000 div M"
  define r where "r = 985000 mod M"
  have N: "16 dvd N" "16 \<le> N"
    using assms(3) by auto
  have M: "16 \<le> M" "16 dvd M"
  proof -
    have "1 * 16 \<le> m * N"
      using assms(1) N(2) by (rule mult_le_mono)
    then show "16 \<le> M"
      by (simp add: M_def)
    show "16 dvd M"
      unfolding M_def using N(1) by (rule dvd_mult)
  qed
  have split: "985000 = k * M + r"
    by (simp add: k_def r_def)
  have "r \<noteq> 0"
  proof
    assume "r = 0"
    then have "M dvd 985000"
      by (simp add: r_def mod_eq_0_iff_dvd)
    with M(2) have "(16 :: nat) dvd 985000"
      by (rule dvd_trans)
    then show False
      by simp
  qed
  moreover have "r < M"
    using M(1) by (simp add: r_def)
  ultimately have r: "1 \<le> real r" "real r \<le> real M - 1"
    by linarith+
  have Mpos: "0 < real M"
    using M(1) by simp
  have eq: "(985000 :: real) = real k * real M + real r"
    using split by (metis of_nat_add of_nat_mult of_nat_numeral)
  have f: "0 < real m" "real m \<le> 2 ^ 24"
    using assms(1,2) by simp_all
  have n: "real N \<in> {16, 32, 64, 128}"
    using assms(3) by auto
  have prod: "real m * real N = real M"
    by (simp add: M_def)
  have lo: "(985000 - 1 / 2) / real M \<le> t" and hi: "t \<le> (985000 + 1 / 2) / real M"
    using time_temp_bounds [OF f n] by (simp_all only: t_def prod)
  have "real k * real M \<le> 985000 - 1 / 2"
    using eq r(1) by linarith
  then have "real k \<le> (985000 - 1 / 2) / real M"
    using Mpos by (simp add: pos_le_divide_eq)
  with lo have below: "real k \<le> t"
    by linarith
  have "985000 + 1 / 2 < (real k + 1) * real M"
    using eq r(2) by (simp add: algebra_simps)
  then have "(985000 + 1 / 2) / real M < real k + 1"
    using Mpos by (simp add: pos_divide_less_eq)
  with hi have above: "t < real k + 1"
    by linarith
  from below above have "\<lfloor>t\<rfloor> = int k"
    by (simp add: floor_eq_iff)
  then show "\<lfloor>mul32 (mul32 (div32 (div32 1 (real m)) (real N)) 1000000) time_compensation\<rfloor>
      = int (985000 div (m * N))"
    by (simp only: t_def k_def M_def)
  show "0 \<le> mul32 (mul32 (div32 (div32 1 (real m)) (real N)) 1000000) time_compensation"
    using below by (simp add: t_def [symmetric])
  have "(985000 + 1 / 2) / real M \<le> (985000 + 1 / 2) / 16"
    using M(1) by (intro divide_left_mono) simp_all
  with hi show "mul32 (mul32 (div32 (div32 1 (real m)) (real N)) 1000000) time_compensation
      < 61563"
    by (simp add: t_def [symmetric])
qed

lemma to_uint32_time_temp:
  assumes "1 \<le> m" and "m \<le> 16777216" and "N \<in> {16, 32, 64, 128}"
  shows "to_uint32 pf (mul32 (mul32 (div32 (div32 1 (real m)) (real N)) 1000000)
      time_compensation) = word_of_int (int (985000 div (m * N)))"
    and "uint (to_uint32 pf (mul32 (mul32 (div32 (div32 1 (real m)) (real N)) 1000000)
      time_compensation)) = int (985000 div (m * N))"
proof -
  define t where
    "t = mul32 (mul32 (div32 (div32 1 (real m)) (real N)) 1000000) time_compensation"
  have fl: "\<lfloor>t\<rfloor> = int (985000 div (m * N))" and pos: "0 \<le> t" and less: "t < 61563"
    unfolding t_def using assms by (rule time_temp_whole)+
  have tr: "trunc t = \<lfloor>t\<rfloor>"
    using pos by (rule trunc_nonneg)
  have range: "0 \<le> \<lfloor>t\<rfloor>" "\<lfloor>t\<rfloor> < 2 ^ 32"
    using pos less by (simp_all add: floor_less_iff)
  then have conv: "to_uint32 pf t = word_of_int \<lfloor>t\<rfloor>"
    by (simp add: to_uint32_def tr)
  with fl show "to_uint32 pf (mul32 (mul32 (div32 (div32 1 (real m)) (real N)) 1000000)
      time_compensation) = word_of_int (int (985000 div (m * N)))"
    unfolding t_def by simp
  have "uint (word_of_int \<lfloor>t\<rfloor> :: u32) = \<lfloor>t\<rfloor>"
    using range by (simp add: uint_word_of_int take_bit_int_eq_self)
  with conv fl show "uint (to_uint32 pf (mul32 (mul32 (div32 (div32 1 (real m)) (real N))
      1000000) time_compensation)) = int (985000 div (m * N))"
    unfolding t_def by simp
qed

lemma update_freq_whole:
  assumes "wave_parameters st FREQ = real m" and "1 \<le> m" and "m \<le> 16777216"
    and "wave_parameters st SAMPLES = real N" and "N \<in> {16, 32, 64, 128}"
  shows "uint (sample_interval (update_freq pf st)) = int (985000 div (m * N))"
proof -
  have "m \<noteq> 0" "N \<noteq> 0"
    using assms(2,5) by auto
  then show ?thesis
    by (simp add: update_freq_def assms(1,4) to_uint32_time_temp(2) [OF assms(2,3,5)])
qed

text \<open>
  Claim C5, as stated, fails: the sample interval is not the product rounded to the
  nearest integer. With the parameters that \<^verbatim>\<open>setup()\<close> loads (50 Hz, 32 samples) the
  product is 615.625; \<^verbatim>\<open>update_freq\<close> stores 615, and rounding gives 616.
\<close>

theorem update_freq_rounds_counterexample:
  "uint (sample_interval (update_freq wrapping_platform (setup_state (pins 0 False False))))
     = 615
   \<and> round (1 / initial_parameters FREQ / initial_parameters SAMPLES * 1000000 * 0.985) = 616
   \<and> 0 < initial_parameters FREQ \<and> initial_parameters SAMPLES = 32"
proof -
  let ?st = "setup_state (pins 0 False False)"
  have "uint (sample_interval (update_freq wrapping_platform ?st)) = int (985000 div (50 * 32))"
    by (rule update_freq_whole)
      (simp_all add: setup_state_def initial_parameters_def initial_freq_def
        initial_samples_def)
  then show ?thesis
    by (simp add: initial_parameters_def initial_freq_def initial_samples_def round_def)
qed

text \<open>
  Nor is the interval the integer part of the product for every positive frequency: each
  of the four operations on \<^verbatim>\<open>time_temp\<close> is rounded to binary32. For 449.361328125 Hz
  and 16 samples the product is 136.9999957, but \<^verbatim>\<open>time_temp\<close> ends as 137.
\<close>

lemma update_freq_fraction_example:
  "mul32 (mul32 (div32 (div32 1 (230073 / 512)) 16) 1000000) time_compensation = 137
   \<and> \<lfloor>1 / (230073 / 512) / 16 * 1000000 * 0.985 :: real\<rfloor> = 136"
proof -
  have "fl32 (1 / (230073 / 512))
      = 2 powi (- 9 - 23) * of_int (round_even (1 / (230073 / 512) / 2 powi (- 9 - 23)))"
    by (rule fl32_eval) (simp_all add: power_int_minus)
  also have "\<dots> = 9557937 / 4294967296"
    by (simp add: round_even_def power_int_minus)
  finally have t1: "div32 1 (230073 / 512) = 9557937 / 4294967296"
    by (simp only: div32_def)
  have "fl32 (9557937 / 4294967296 / 16)
      = 2 powi (- 13 - 23)
        * of_int (round_even (9557937 / 4294967296 / 16 / 2 powi (- 13 - 23)))"
    by (rule fl32_eval) (simp_all add: power_int_minus)
  also have "\<dots> = 9557937 / 68719476736"
    by (simp add: round_even_def power_int_minus)
  finally have t2: "div32 (9557937 / 4294967296) 16 = 9557937 / 68719476736"
    by (simp only: div32_def)
  have "fl32 (9557937 / 68719476736 * 1000000)
      = 2 powi (7 - 23)
        * of_int (round_even (9557937 / 68719476736 * 1000000 / 2 powi (7 - 23)))"
    by (rule fl32_eval) (simp_all add: power_int_minus)
  also have "\<dots> = 9115159 / 65536"
    by (simp add: round_even_def power_int_minus)
  finally have t3: "mul32 (9557937 / 68719476736) 1000000 = 9115159 / 65536"
    by (simp only: mul32_def)
  have "fl32 (9115159 / 65536 * (8262779 / 8388608))
      = 2 powi (7 - 23)
        * of_int (round_even (9115159 / 65536 * (8262779 / 8388608) / 2 powi (7 - 23)))"
    by (rule fl32_eval) (simp_all add: power_int_minus)
  also have "\<dots> = 137"
    by (simp add: round_even_def power_int_minus)
  finally have t4: "mul32 (9115159 / 65536) time_compensation = 137"
    by (simp only: mul32_def time_compensation_value)
  show ?thesis
    by (simp only: t1 t2 t3 t4) simp
qed

text \<open>
  Claim C5, amended. For a whole-number frequency from 1 Hz to \<open>2 ^ 24\<close> Hz and a sample
  count of 16, 32, 64 or 128, \<^verbatim>\<open>update_freq\<close> stores the integer part of
  \<open>(1 / f) / N * 1000000 * 0.985\<close>: the fraction is discarded.
\<close>

theorem update_freq_truncates:
  assumes "wave_parameters st FREQ = real m" and "1 \<le> m" and "m \<le> 16777216"
    and "wave_parameters st SAMPLES \<in> {16, 32, 64, 128}"
  shows "uint (sample_interval (update_freq pf st))
       = \<lfloor>1 / wave_parameters st FREQ / wave_parameters st SAMPLES * 1000000 * 0.985\<rfloor>"
proof -
  from assms(4) obtain N :: nat where N: "wave_parameters st SAMPLES = real N"
    and kind: "N \<in> {16, 32, 64, 128}"
    by (auto intro: that [of 16] that [of 32] that [of 64] that [of 128])
  have pos: "0 < m * N"
    using assms(2) kind by auto
  have "uint (sample_interval (update_freq pf st)) = int (985000 div (m * N))"
    using assms(1,2,3) N kind by (rule update_freq_whole)
  also have "\<dots> = \<lfloor>real 985000 / real (m * N)\<rfloor>"
    by (rule floor_divide_of_nat_eq [symmetric])
  also have "real 985000 / real (m * N)
      = 1 / wave_parameters st FREQ / wave_parameters st SAMPLES * 1000000 * 0.985"
    by (simp add: assms(1) N)
  finally show ?thesis .
qed

theorem update_freq_truncates_witness:
  "initial_parameters FREQ = real 50 \<and> (1 :: nat) \<le> 50 \<and> (50 :: nat) \<le> 16777216
   \<and> initial_parameters SAMPLES \<in> {16, 32, 64, 128 :: real}
   \<and> uint (sample_interval (update_freq wrapping_platform (setup_state (pins 0 False False))))
       = 615"
proof -
  let ?st = "setup_state (pins 0 False False)"
  have f: "wave_parameters ?st FREQ = real 50"
    by (simp add: setup_state_def initial_parameters_def initial_freq_def)
  have n: "wave_parameters ?st SAMPLES \<in> {16, 32, 64, 128}"
    by (simp add: setup_state_def initial_parameters_def initial_samples_def)
  have m: "(1 :: nat) \<le> 50" "(50 :: nat) \<le> 16777216"
    by simp_all
  show ?thesis
    using update_freq_truncates [OF f m n, of wrapping_platform]
    by (simp add: setup_state_def initial_parameters_def initial_freq_def initial_samples_def)
qed

subsection \<open>The clamp of the frequency\<close>

text \<open>
  Claim C6, as stated, fails: with 128 samples not every frequency above 71 Hz is
  clamped. The pass compares the integer part of the frequency with 71, so 71.5 Hz passes
  unchanged.
\<close>

theorem saturate_frequency_counterexample:
  "saturate_parameters wrapping_platform (initial_parameters(FREQ := 71.5, SAMPLES := 128))
     = Inr (initial_parameters(FREQ := 71.5, SAMPLES := 128))
   \<and> (71 :: real) < 71.5 \<and> (71.5 :: real) \<noteq> 71"
  by (simp add: saturate_parameters_def Let_def to_uint16_def trunc_def wrapping_platform_def
      freq_max_def initial_parameters_def initial_amplitude_def initial_offset_value Vref_value
      drop_bit_eq_div)

text \<open>
  The frequency after the saturation, given the divisor \<open>d\<close> and a bound \<open>b\<close> that the
  comparison of the integer parts amounts to.
\<close>

lemma saturate_parameters_freq:
  assumes "drop_bit 4 (to_uint16 pf (wp SAMPLES)) = d" and "d \<noteq> 0"
    and "(freq_max div d < to_uint16 pf (wp FREQ)) = (b + 1 \<le> wp FREQ)"
    and "div32 (real (unat freq_max)) (real (unat d)) = b"
    and "0 \<le> wp FREQ"
  shows "\<exists>wp'. saturate_parameters pf wp = Inr wp'
    \<and> wp' FREQ = (if b + 1 \<le> wp FREQ then b else wp FREQ)"
proof (cases "b + 1 \<le> wp FREQ")
  case True
  then show ?thesis
    using assms by (simp add: saturate_parameters_def Let_def)
next
  case False
  then show ?thesis
    using assms by (simp add: saturate_parameters_def Let_def)
qed

lemma word_less_floor:
  assumes "0 \<le> x" and "x < 65536" and "0 \<le> b" and "b < 65536"
  shows "((word_of_int b :: u16) < to_uint16 pf x) = (real_of_int b + 1 \<le> x)"
proof -
  have "uint (to_uint16 pf x) = \<lfloor>x\<rfloor>"
    using to_uint16_in_range [OF assms(1,2)] by (rule conjunct2)
  moreover have "uint (word_of_int b :: u16) = b"
    using assms(3,4) by (simp add: uint_word_of_int_u16)
  ultimately have "((word_of_int b :: u16) < to_uint16 pf x) = (b < \<lfloor>x\<rfloor>)"
    by (simp add: word_less_alt)
  also have "\<dots> = (real_of_int b + 1 \<le> x)"
    by (simp add: less_floor_iff)
  finally show ?thesis .
qed

text \<open>
  Claim C6, amended. For a sample count \<open>n\<close> of 16, 32, 64 or 128 and a frequency in
  \<open>[0, 65536)\<close>, the saturation, when it runs, sets the frequency to \<open>freq_max / (n / 16)\<close>
  when it is at least one above that bound (its integer part exceeds the bound), and
  leaves it unchanged otherwise. With 128 samples the bound is 71: every frequency from
  72 Hz on is clamped to exactly 71.
\<close>

theorem saturate_frequency_clamp:
  assumes "wp SAMPLES = n" and "n \<in> {16, 32, 64, 128}"
    and "0 \<le> wp FREQ" and "wp FREQ < 65536"
  shows "real (unat freq_max) / (128 / 16) = 71
    \<and> (\<exists>wp'. saturate_parameters pf wp = Inr wp'
         \<and> wp' FREQ = (if real (unat freq_max) / (n / 16) + 1 \<le> wp FREQ
                        then real (unat freq_max) / (n / 16) else wp FREQ))"
proof -
  consider "n = 16" | "n = 32" | "n = 64" | "n = 128"
    using assms(2) by auto
  then have clamp: "\<exists>wp'. saturate_parameters pf wp = Inr wp'
    \<and> wp' FREQ = (if 568 / (n / 16) + 1 \<le> wp FREQ then 568 / (n / 16) else wp FREQ)"
  proof cases
    case 1
    then have d: "drop_bit 4 (to_uint16 pf (wp SAMPLES)) = 1"
      using assms(1) by (simp add: to_uint16_def trunc_def drop_bit_eq_div)
    have "((568 :: u16) < to_uint16 pf (wp FREQ)) = (568 + 1 \<le> wp FREQ)"
      using word_less_floor [OF assms(3,4), of 568 pf] by simp
    then show ?thesis
      using saturate_parameters_freq [of pf wp 1 568] assms(3) 1
      by (auto simp add: d freq_max_def div32_def split: if_splits)
  next
    case 2
    then have d: "drop_bit 4 (to_uint16 pf (wp SAMPLES)) = 2"
      using assms(1) by (simp add: to_uint16_def trunc_def drop_bit_eq_div)
    have "((284 :: u16) < to_uint16 pf (wp FREQ)) = (284 + 1 \<le> wp FREQ)"
      using word_less_floor [OF assms(3,4), of 284 pf] by simp
    then show ?thesis
      using saturate_parameters_freq [of pf wp 2 284] assms(3) 2
      by (auto simp add: d freq_max_def div32_def split: if_splits)
  next
    case 3
    then have d: "drop_bit 4 (to_uint16 pf (wp SAMPLES)) = 4"
      using assms(1) by (simp add: to_uint16_def trunc_def drop_bit_eq_div)
    have "((142 :: u16) < to_uint16 pf (wp FREQ)) = (142 + 1 \<le> wp FREQ)"
      using word_less_floor [OF assms(3,4), of 142 pf] by simp
    then show ?thesis
      using saturate_parameters_freq [of pf wp 4 142] assms(3) 3
      by (auto simp add: d freq_max_def div32_def split: if_splits)
  next
    case 4
    then have d: "drop_bit 4 (to_uint16 pf (wp SAMPLES)) = 8"
      using assms(1) by (simp add: to_uint16_def trunc_def drop_bit_eq_div)
    have "((71 :: u16) < to_uint16 pf (wp FREQ)) = (71 + 1 \<le> wp FREQ)"
      using word_less_floor [OF assms(3,4), of 71 pf] by simp
    then show ?thesis
      using saturate_parameters_freq [of pf wp 8 71] assms(3) 4
      by (auto simp add: d freq_max_def div32_def split: if_splits)
  qed
  have eq: "real (unat freq_max) = 568"
    by (simp add: freq_max_def)
  show ?thesis
  proof (rule conjI)
    show "real (unat freq_max) / (128 / 16) = 71"
      by (simp add: freq_max_def)
    show "\<exists>wp'. saturate_parameters pf wp = Inr wp'
      \<and> wp' FREQ = (if real (unat freq_max) / (n / 16) + 1 \<le> wp FREQ
                     then real (unat freq_max) / (n / 16) else wp FREQ)"
      unfolding eq by (rule clamp)
  qed
qed

theorem saturate_frequency_clamp_witness:
  "initial_parameters SAMPLES \<in> {16, 32, 64, 128 :: real}
   \<and> (\<exists>wp'. saturate_parameters wrapping_platform (initial_parameters(FREQ := 300)) = Inr wp'
         \<and> wp' FREQ = 284)
   \<and> (\<exists>wp'. saturate_parameters wrapping_platform
           (initial_parameters(FREQ := 100, SAMPLES := 128)) = Inr wp'
         \<and> wp' FREQ = 71)"
  using saturate_frequency_clamp [of "initial_parameters(FREQ := 300)" 32 wrapping_platform]
    saturate_frequency_clamp [of "initial_parameters(FREQ := 100, SAMPLES := 128)" 128
      wrapping_platform]
  by (simp add: initial_parameters_def initial_samples_def freq_max_def)

text \<open>
  The product of the editor for a step of 1, \<open>-1\<close> or 0, and the sample interval for 80 Hz
  and 128 samples.
\<close>

lemma mul32_one: "mul32 x 1 = fl32 x" "mul32 x (- 1) = fl32 (- x)" "mul32 x 0 = 0"
  by (simp_all add: mul32_def)

lemma interval_80_128:
  "to_uint32 pf (mul32 (mul32 (div32 (div32 1 80) 128) 1000000) time_compensation) = 96"
  using to_uint32_time_temp(1) [of 80 128 pf] by simp

text \<open>
  The saturation runs in mode CONFIGURING only, each time 500 ms have passed. In the run
  below, from \<^verbatim>\<open>setup()\<close>, the sample count is raised to 128 at field 9 and the frequency
  to 80 Hz at field 1, and SW1 is pressed within 11 ms: no saturation has run, and the
  pass in mode CALCULATING computes the interval from 80 Hz.
\<close>

lemma unclamped_frequency_reaches_update_freq:
  "\<exists>st'. run wrapping_platform
       [Pass (pins 0 True True), Press_SW1,
        Press_SW2, Press_SW2, Press_SW2, Press_SW2, Press_SW2, Press_SW2, Press_SW2,
        Press_SW2, Press_SW2,
        Pass (pins 1000 False True), Pass (pins 2000 True True),
        Pass (pins 3000 False True), Pass (pins 4000 True True),
        Press_SW2, Pass (pins 5000 True True), Press_SW2,
        Pass (pins 6000 False True), Pass (pins 7000 True True),
        Pass (pins 8000 False True), Pass (pins 9000 True True),
        Pass (pins 10000 False True),
        Press_SW1, Pass (pins 11000 False True)]
       (setup_state (pins 0 True True)) = Inr st'
     \<and> SW1_state st' = RUNNING
     \<and> wave_parameters st' SAMPLES = 128
     \<and> wave_parameters st' FREQ = 80
     \<and> sample_interval st' = 96"
  by (simp add: loop_def configuring_def calculating_def regenerate_def update_freq_def
      saturate_parameters_def read_Encoder_def edit_field_def add_step_def samples_step_def
      SW1_interrupt_def SW2_interrupt_def setup_state_def pins_def enum_defs Let_def
      multipliers_def initial_parameters_def initial_freq_def initial_amplitude_def
      initial_offset_value initial_samples_def Vref_value add32_def mul32_one freq_max_def buffer_size_def
      to_uint16_def to_uint8_def trunc_def drop_bit_eq_div
      wrapping_platform_def interval_80_128)

subsection \<open>The sample count at field 9\<close>

text \<open>
  Claim C2 fails on the code. At field 9 a step of \<open>-1\<close> from 16 samples gives
  \<open>8 AND 0xF0 = 0\<close>, and a step of \<open>+1\<close> from 128 samples gives \<open>256 AND 0xF0 = 0\<close>: the
  sample count leaves the range from 16 to 128. Both happen in runs from \<^verbatim>\<open>setup()\<close>: SW1
  pressed once (mode CONFIGURING), SW2 pressed nine times (field 9), then the encoder
  turned two notches down from the initial 32 samples, or three notches up.
\<close>

theorem samples_step_leaves_range:
  "samples_step 16 (- 1) = 0 \<and> samples_step 128 1 = 0
   \<and> (\<exists>st'. run wrapping_platform
          [Pass (pins 0 True True), Press_SW1,
           Press_SW2, Press_SW2, Press_SW2, Press_SW2, Press_SW2, Press_SW2, Press_SW2,
           Press_SW2, Press_SW2,
           Pass (pins 1000 False False), Pass (pins 2000 True False),
           Pass (pins 3000 False False)]
          (setup_state (pins 0 True True)) = Inr st'
        \<and> SW1_state st' = CONFIGURING \<and> SW2_state st' = 9
        \<and> wave_parameters st' SAMPLES = 0)
   \<and> (\<exists>st'. run wrapping_platform
          [Pass (pins 0 True True), Press_SW1,
           Press_SW2, Press_SW2, Press_SW2, Press_SW2, Press_SW2, Press_SW2, Press_SW2,
           Press_SW2, Press_SW2,
           Pass (pins 1000 False True), Pass (pins 2000 True True),
           Pass (pins 3000 False True), Pass (pins 4000 True True),
           Pass (pins 5000 False True)]
          (setup_state (pins 0 True True)) = Inr st'
        \<and> SW1_state st' = CONFIGURING \<and> SW2_state st' = 9
        \<and> wave_parameters st' SAMPLES = 0)"
  by (simp add: loop_def configuring_def calculating_def regenerate_def update_freq_def
      saturate_parameters_def read_Encoder_def edit_field_def add_step_def samples_step_def
      SW1_interrupt_def SW2_interrupt_def setup_state_def pins_def enum_defs Let_def
      multipliers_def initial_parameters_def initial_freq_def initial_amplitude_def
      initial_offset_value initial_samples_def Vref_value add32_def mul32_one freq_max_def buffer_size_def
      to_uint16_def to_uint8_def trunc_def drop_bit_eq_div)

text \<open>The new value of \<^verbatim>\<open>aux\<close> for the four sample counts and the three steps.\<close>

lemma samples_step_cases:
  "n \<in> {16, 32, 64, 128} \<Longrightarrow> sint enc \<in> {- 1, 0, 1} \<Longrightarrow>
     samples_step n enc =
       (if sint enc = 1 then (if n = 128 then 0 else 2 * n)
        else if sint enc = - 1 then (if n = 16 then 0 else n div 2)
        else n)"
  by (auto simp add: samples_step_def Let_def)

subsection \<open>Field 1 with the DC waveform\<close>

text \<open>
  Claim C4 fails on the code. In a run from \<^verbatim>\<open>setup()\<close>, SW1 is pressed (mode
  CONFIGURING, field 0), the encoder is turned one notch down (the waveform becomes DC)
  and SW2 is pressed (field 1): the frequency is still 50 Hz. The next pass reads a step
  of \<open>+1\<close> (a falling clock edge with the data line high): it moves the cursor to field 6,
  but first adds 10 to the frequency, which becomes 60 Hz.
\<close>

theorem dc_field_one_edits_frequency:
  "\<exists>st st'.
     run wrapping_platform
       [Pass (pins 0 True True), Press_SW1,
        Pass (pins 1000 False False), Pass (pins 2000 True False),
        Press_SW2]
       (setup_state (pins 0 True True)) = Inr st
     \<and> SW1_state st = CONFIGURING \<and> waveform st = DC \<and> SW2_state st = 1
     \<and> wave_parameters st FREQ = 50
     \<and> loop wrapping_platform (pins 3000 False True) st = Inr st'
     \<and> sint (enc_value st') = 1
     \<and> SW2_state st' = 6
     \<and> wave_parameters st' FREQ = 60"
  by (simp add: loop_def configuring_def calculating_def regenerate_def update_freq_def
      saturate_parameters_def read_Encoder_def edit_field_def add_step_def samples_step_def
      SW1_interrupt_def SW2_interrupt_def setup_state_def pins_def enum_defs Let_def
      multipliers_def initial_parameters_def initial_freq_def initial_amplitude_def
      initial_offset_value initial_samples_def Vref_value add32_def mul32_one freq_max_def buffer_size_def
      to_uint16_def to_uint8_def trunc_def drop_bit_eq_div)

text \<open>Case 1 of the \<^verbatim>\<open>switch\<close> in general: the edit comes first, then the jump.\<close>

lemma edit_field_one:
  "SW2_state st = 1 \<Longrightarrow>
     wave_parameters (edit_field pf st) FREQ
       = add32 (wave_parameters st FREQ) (mul32 10 (real_of_int (sint (enc_value st))))
     \<and> SW2_state (edit_field pf st) = (if waveform st = DC then 6 else 1)"
  by (simp add: edit_field_def add_step_def Let_def multipliers_def)

subsection \<open>A frequency of zero\<close>

text \<open>
  Claim C3 fails on the code. A frequency of 0 passes the saturation unchanged: its
  integer part is not above the bound, and it is not below 0. In the run below, from
  \<^verbatim>\<open>setup()\<close>, SW1 and SW2 are pressed (mode CONFIGURING, field 1) and the encoder is turned
  five notches down: the frequency goes from 50 Hz to 0. The pass at 600 ms runs the
  saturation and leaves the frequency at 0. After another press of SW1 the pass in mode
  CALCULATING runs \<^verbatim>\<open>update_freq\<close>, which divides by that frequency and stores the
  conversion of an infinite value.
\<close>

theorem zero_frequency_survives:
  "\<exists>st1 st2.
     run wrapping_platform
       [Pass (pins 0 True True), Press_SW1, Press_SW2,
        Pass (pins 1000 False False), Pass (pins 2000 True False),
        Pass (pins 3000 False False), Pass (pins 4000 True False),
        Pass (pins 5000 False False), Pass (pins 6000 True False),
        Pass (pins 7000 False False), Pass (pins 8000 True False),
        Pass (pins 9000 False False),
        Pass (pins 600000 False False)]
       (setup_state (pins 0 True True)) = Inr st1
     \<and> SW1_state st1 = CONFIGURING
     \<and> last_sample_time2 st1 = 600000
     \<and> wave_parameters st1 FREQ = 0
     \<and> run wrapping_platform [Press_SW1, Pass (pins 700000 False False)] st1 = Inr st2
     \<and> SW1_state st2 = RUNNING
     \<and> wave_parameters st2 FREQ = 0
     \<and> sample_interval st2 = inf_to_uint32 wrapping_platform"
  by (simp add: loop_def configuring_def calculating_def regenerate_def update_freq_def
      saturate_parameters_def read_Encoder_def edit_field_def add_step_def samples_step_def
      SW1_interrupt_def SW2_interrupt_def setup_state_def pins_def enum_defs Let_def
      multipliers_def initial_parameters_def initial_freq_def initial_amplitude_def
      initial_offset_value initial_samples_def Vref_value add32_def mul32_one freq_max_def buffer_size_def
      to_uint16_def to_uint8_def trunc_def drop_bit_eq_div)

text \<open>The saturation leaves a frequency of 0 as it is, on every platform.\<close>

lemma saturate_parameters_zero:
  "wp FREQ = 0 \<Longrightarrow> drop_bit 4 (to_uint16 pf (wp SAMPLES)) \<noteq> 0 \<Longrightarrow>
     \<exists>wp'. saturate_parameters pf wp = Inr wp' \<and> wp' FREQ = 0"
  by (simp add: saturate_parameters_def Let_def to_uint16_def trunc_def)

subsection \<open>The pass in mode CALCULATING\<close>

text \<open>Every cell after a call of \<^verbatim>\<open>wave_calc\<close> for one of the four waveforms.\<close>

lemma wave_calc_cells:
  assumes "wv \<in> {SINE, RAMP, SQUARE, DC}"
  shows "wave_calc pf array points amplitude offset wv j
    = (if j < unat points
       then wave_store (to_int32 pf (raw_sample pf wv (unat points) amplitude offset j))
       else array j)"
proof (cases "j < unat points")
  case True
  then show ?thesis
    using assms by (simp add: wave_calc_raw)
next
  case False
  then show ?thesis
    by (simp add: wave_calc_def wave_loop_outside split: prod.split)
qed

text \<open>The initial amplitude and the initial offset, scaled to codes of the DAC.\<close>

lemma scaled_Vref: "mul32 (13489219 / 16384) (10433331 / 2097152) = 4096"
proof -
  have "fl32 (13489219 / 16384 * (10433331 / 2097152))
      = 2 powi (11 - 23)
        * of_int (round_even (13489219 / 16384 * (10433331 / 2097152) / 2 powi (11 - 23)))"
    by (rule fl32_eval) simp_all
  also have "\<dots> = 4096"
    by (simp add: round_even_def power_int_minus)
  finally show ?thesis
    by (simp only: mul32_def)
qed

lemma scaled_initial_offset: "mul32 (13489219 / 16384) (10433331 / 4194304) = 2048"
proof -
  have "fl32 (13489219 / 16384 * (10433331 / 4194304))
      = 2 powi (10 - 23)
        * of_int (round_even (13489219 / 16384 * (10433331 / 4194304) / 2 powi (10 - 23)))"
    by (rule fl32_eval) simp_all
  also have "\<dots> = 2048"
    by (simp add: round_even_def power_int_minus)
  finally show ?thesis
    by (simp only: mul32_def)
qed

lemma valid_samples_uint:
  "wp SAMPLES \<in> {16, 32, 64, 128} \<Longrightarrow>
     unat (to_uint16 pf (wp SAMPLES)) \<le> buffer_size
     \<and> unat (to_uint16 pf (wp SAMPLES)) = nat \<lfloor>wp SAMPLES\<rfloor>"
  by (auto simp add: to_uint16_def trunc_def buffer_size_def)

text \<open>
  Claim C9. From mode CALCULATING, for each of the four waveforms and for valid
  parameters, one pass of \<^verbatim>\<open>loop()\<close> succeeds. It regenerates the sample buffer: every
  cell below the sample count holds the saturated raw value of its sample for the current
  waveform, amplitude and offset, and the cells from the sample count on are unchanged. It
  regenerates the sample interval: the conversion to \<^verbatim>\<open>uint32_t\<close> of
  \<open>(1 / f) / N * 1000000 * time_compensation\<close> rounded at each operation, which for a
  whole-number frequency is the integer part of \<open>(1 / f) / N * 1000000 * 0.985\<close>. It ends in
  mode RUNNING with \<^verbatim>\<open>SW2_state\<close> reset to 0, the parameters unchanged.
\<close>

theorem calculating_pass:
  assumes "SW1_state st = CALCULATING"
    and "waveform st \<in> {SINE, RAMP, SQUARE, DC}"
    and "valid_parameters (wave_parameters st)"
  shows "\<exists>st'. loop pf inp st = Inr st'
    \<and> (\<forall>j. wave st' j =
          (if j < nat \<lfloor>wave_parameters st SAMPLES\<rfloor>
           then wave_store (to_int32 pf
                  (raw_sample pf (ucast (waveform st)) (nat \<lfloor>wave_parameters st SAMPLES\<rfloor>)
                     (wave_parameters st AMPLITUDE) (wave_parameters st OFFSET) j))
           else wave st j))
    \<and> sample_interval st' = to_uint32 pf
         (mul32 (mul32 (div32 (div32 1 (wave_parameters st FREQ)) (wave_parameters st SAMPLES))
            1000000) time_compensation)
    \<and> (\<forall>m. wave_parameters st FREQ = real m \<longrightarrow>
          uint (sample_interval st')
            = \<lfloor>1 / wave_parameters st FREQ / wave_parameters st SAMPLES * 1000000 * 0.985\<rfloor>)
    \<and> SW1_state st' = RUNNING
    \<and> SW2_state st' = 0
    \<and> wave_parameters st' = wave_parameters st"
proof -
  define n where "n = to_uint16 pf (wave_parameters st SAMPLES)"
  define st' where
    "st' = (update_freq pf (st\<lparr>samples_uint := n,
       wave := wave_calc pf (wave st) n (wave_parameters st AMPLITUDE)
         (wave_parameters st OFFSET) (ucast (waveform st))\<rparr>))\<lparr>SW1_state := RUNNING,
       SW2_state := 0\<rparr>"
  have samples: "wave_parameters st SAMPLES \<in> {16, 32, 64, 128}"
    using assms(3) by (simp add: valid_parameters_def)
  then have fits: "\<not> buffer_size < unat n"
    and count: "unat n = nat \<lfloor>wave_parameters st SAMPLES\<rfloor>"
    using valid_samples_uint [of "wave_parameters st" pf] by (simp_all add: n_def)
  have nonzero: "wave_parameters st FREQ \<noteq> 0" "wave_parameters st SAMPLES \<noteq> 0"
    using assms(3) samples by (auto simp add: valid_parameters_def)
  have mode: "SW1_state st \<noteq> RUNNING" "SW1_state st \<noteq> CONFIGURING"
    using assms(1) by (simp_all add: enum_defs)
  have kind: "(ucast (waveform st) :: u16) \<in> {SINE, RAMP, SQUARE, DC}"
    using assms(2) by (auto simp add: enum_defs)
  have pass: "loop pf inp st = Inr st'"
    using assms(1,2) mode fits
    by (auto simp add: loop_def calculating_def regenerate_def Let_def n_def st'_def)
  have buffer: "wave st' j =
      (if j < nat \<lfloor>wave_parameters st SAMPLES\<rfloor>
       then wave_store (to_int32 pf
              (raw_sample pf (ucast (waveform st)) (nat \<lfloor>wave_parameters st SAMPLES\<rfloor>)
                 (wave_parameters st AMPLITUDE) (wave_parameters st OFFSET) j))
       else wave st j)" for j
    by (simp add: st'_def update_freq_def Let_def wave_calc_cells [OF kind] count)
  have interval: "sample_interval st' = to_uint32 pf
      (mul32 (mul32 (div32 (div32 1 (wave_parameters st FREQ)) (wave_parameters st SAMPLES))
         1000000) time_compensation)"
    using nonzero by (simp add: st'_def update_freq_def Let_def)
  have whole: "uint (sample_interval st')
      = \<lfloor>1 / wave_parameters st FREQ / wave_parameters st SAMPLES * 1000000 * 0.985\<rfloor>"
    if m: "wave_parameters st FREQ = real m" for m
  proof -
    from samples obtain N :: nat where N: "wave_parameters st SAMPLES = real N"
      and N4: "N \<in> {16, 32, 64, 128}"
      by (auto intro: that [of 16] that [of 32] that [of 64] that [of 128])
    have "0 < real m" "real m \<le> 568 / (real N / 16)"
      using assms(3) by (simp_all add: valid_parameters_def m N freq_max_def)
    moreover have "568 / (real N / 16) \<le> 568"
      using N4 by auto
    ultimately have m1: "1 \<le> m" and m2: "m \<le> 16777216"
      by simp_all
    have "uint (sample_interval st') = int (985000 div (m * N))"
      by (simp add: interval m N to_uint32_time_temp(2) [OF m1 m2 N4])
    also have "\<dots> = \<lfloor>real 985000 / real (m * N)\<rfloor>"
      by (rule floor_divide_of_nat_eq [symmetric])
    also have "real 985000 / real (m * N)
        = 1 / wave_parameters st FREQ / wave_parameters st SAMPLES * 1000000 * 0.985"
      by (simp add: m N)
    finally show ?thesis .
  qed
  have "SW1_state st' = RUNNING" "SW2_state st' = 0" "wave_parameters st' = wave_parameters st"
    by (simp_all add: st'_def update_freq_def Let_def)
  with pass buffer interval whole show ?thesis
    by blast
qed

theorem calculating_pass_witness:
  "SW1_state (setup_state (pins 0 False False)) = CALCULATING
   \<and> (SQUARE :: u8) \<in> {SINE, RAMP, SQUARE, DC}
   \<and> valid_parameters initial_parameters
   \<and> initial_parameters FREQ = real 50
   \<and> (\<exists>st'. loop wrapping_platform (pins 0 False False)
          ((setup_state (pins 0 False False))\<lparr>SW2_state := 5, wave := (\<lambda>j. 7),
             waveform := SQUARE\<rparr>) = Inr st'
        \<and> wave st' 0 = 4095 \<and> wave st' 16 = 2048 \<and> wave st' 40 = 7
        \<and> uint (sample_interval st') = 615 \<and> SW1_state st' = RUNNING \<and> SW2_state st' = 0)"
proof -
  let ?inp = "pins 0 False False"
  let ?st = "(setup_state ?inp)\<lparr>SW2_state := 5, wave := (\<lambda>j. 7), waveform := SQUARE\<rparr>"
  have mode: "SW1_state ?st = CALCULATING"
    by (simp add: setup_state_def)
  have kind: "waveform ?st \<in> {SINE, RAMP, SQUARE, DC}"
    by simp
  have valid: "valid_parameters initial_parameters"
    by (simp add: valid_parameters_def initial_parameters_def initial_freq_def
        initial_amplitude_def initial_offset_value initial_samples_def Vref_value freq_max_def)
  then have valid': "valid_parameters (wave_parameters ?st)"
    by (simp add: setup_state_def)
  have par: "wave_parameters ?st = initial_parameters" "wave ?st = (\<lambda>j. 7)"
    "waveform ?st = SQUARE"
    by (simp_all add: setup_state_def)
  have "raw_sample wrapping_platform SQUARE 32 Vref initial_offset 0
      = add32 (div32 (mul32 (div32 4096 Vref) Vref) 1) (mul32 (div32 4096 Vref) initial_offset)"
    by (simp add: raw_sample_def enum_defs)
  also have "\<dots> = add32 (div32 (mul32 (13489219 / 16384) Vref) 1)
      (mul32 (13489219 / 16384) initial_offset)"
    by (simp only: ratio_value)
  also have "\<dots> = add32 (div32 4096 1) 2048"
    by (simp only: Vref_value initial_offset_value scaled_Vref scaled_initial_offset)
  also have "\<dots> = 6144"
    by (simp add: add32_def div32_def)
  finally have high: "raw_sample wrapping_platform SQUARE 32 Vref initial_offset 0 = 6144" .
  have "raw_sample wrapping_platform SQUARE 32 Vref initial_offset 16
      = mul32 (div32 4096 Vref) initial_offset"
    by (simp add: raw_sample_def enum_defs)
  also have "\<dots> = mul32 (13489219 / 16384) initial_offset"
    by (simp only: ratio_value)
  also have "\<dots> = 2048"
    by (simp only: initial_offset_value scaled_initial_offset)
  finally have low: "raw_sample wrapping_platform SQUARE 32 Vref initial_offset 16 = 2048" .
  have store: "wave_store (to_int32 wrapping_platform 6144) = 4095"
    "wave_store (to_int32 wrapping_platform 2048) = 2048"
    by (simp_all add: wave_store_def to_int32_def trunc_def word_sless_alt)
  from calculating_pass [OF mode kind valid', of wrapping_platform ?inp]
  obtain st' where pass: "loop wrapping_platform ?inp ?st = Inr st'"
    and buffer: "\<And>j. wave st' j =
      (if j < nat \<lfloor>wave_parameters ?st SAMPLES\<rfloor>
       then wave_store (to_int32 wrapping_platform
              (raw_sample wrapping_platform (ucast (waveform ?st))
                 (nat \<lfloor>wave_parameters ?st SAMPLES\<rfloor>)
                 (wave_parameters ?st AMPLITUDE) (wave_parameters ?st OFFSET) j))
       else wave ?st j)"
    and whole: "\<And>m. wave_parameters ?st FREQ = real m \<Longrightarrow>
      uint (sample_interval st')
        = \<lfloor>1 / wave_parameters ?st FREQ / wave_parameters ?st SAMPLES * 1000000 * 0.985\<rfloor>"
    and final: "SW1_state st' = RUNNING" "SW2_state st' = 0"
    by blast
  have cast: "(ucast (SQUARE :: u8) :: u16) = SQUARE"
    by (simp add: enum_defs)
  have cells: "wave st' 0 = 4095" "wave st' 16 = 2048" "wave st' 40 = 7"
    using high low store
    by (simp_all add: buffer par cast initial_parameters_def initial_samples_def
        initial_amplitude_def)
  have "uint (sample_interval st') = 615"
    using whole [of 50]
    by (simp add: par initial_parameters_def initial_freq_def initial_samples_def)
  with pass cells final mode kind valid show ?thesis
    by (auto simp add: initial_parameters_def initial_freq_def setup_state_def)
qed

end
